theory Spec2Isabelle
  imports Main "HOL-Library.Char_ord"
begin

section \<open>Strings of the host language\<close>

text \<open>
  The program is TypeScript; its strings are sequences of code units. They are modelled
  as \<^typ>\<open>string\<close>, each \<^typ>\<open>char\<close> standing for the code unit of the same number
  (so the model covers the strings whose code units are below 256).

  \<open>String.prototype.trim\<close> and the pattern class \<open>\s\<close> remove, respectively match,
  the same characters: the white space and line terminator code points. Those below 256
  are TAB, LF, VT, FF, CR, SPACE and NO-BREAK SPACE.
\<close>

definition isSpace :: "char \<Rightarrow> bool" where
  "isSpace c \<longleftrightarrow>
     c \<in> set [CHR 0x09, CHR 0x0A, CHR 0x0B, CHR 0x0C, CHR 0x0D, CHR 0x20, CHR 0xA0]"

definition trim :: "string \<Rightarrow> string" where
  "trim s = rev (dropWhile isSpace (rev (dropWhile isSpace s)))"

text \<open>\<open>s.startsWith(p)\<close>, \<open>s.endsWith(p)\<close> and \<open>s.includes(p)\<close>.\<close>

fun startsWith :: "string \<Rightarrow> string \<Rightarrow> bool" where
  "startsWith s [] = True"
| "startsWith [] (p # ps) = False"
| "startsWith (c # cs) (p # ps) = (c = p \<and> startsWith cs ps)"

definition endsWith :: "string \<Rightarrow> string \<Rightarrow> bool" where
  "endsWith s p = startsWith (rev s) (rev p)"

fun includesStr :: "string \<Rightarrow> string \<Rightarrow> bool" where
  "includesStr [] p = (p = [])"
| "includesStr (c # cs) p = (startsWith (c # cs) p \<or> includesStr cs p)"

text \<open>\<open>parts.join(sep)\<close> and \<open>s.split(sep)\<close> for a one-character separator.\<close>

fun join :: "string \<Rightarrow> string list \<Rightarrow> string" where
  "join sep [] = []"
| "join sep [x] = x"
| "join sep (x # y # ys) = x @ sep @ join sep (y # ys)"

fun split :: "char \<Rightarrow> string \<Rightarrow> string list" where
  "split sep [] = [[]]"
| "split sep (c # cs) =
     (if c = sep then [] # split sep cs
      else (case split sep cs of p # ps \<Rightarrow> (c # p) # ps | [] \<Rightarrow> [[c]]))"

subsection \<open>Regular expressions\<close>

text \<open>
  The patterns of the source use character classes, sequence, the optional group and
  \<open>+\<close>. \<open>RegExp.prototype.test\<close> on a pattern anchored with \<open>^\<close> asks whether some
  prefix of the subject matches; the backtracking search of the host explores every way to
  match, so for these patterns (no back references, no look-around) the answer is
  language membership of a prefix. It is computed here with derivatives.
\<close>

datatype re =
    Fail
  | Empty
  | Class "char \<Rightarrow> bool"
  | Then re re
  | Or re re
  | Many re

definition lit :: "char \<Rightarrow> re" where
  "lit c = Class (\<lambda>x. x = c)"

definition notChar :: "char \<Rightarrow> re" where
  "notChar c = Class (\<lambda>x. x \<noteq> c)"

definition plus :: "re \<Rightarrow> re" where
  "plus r = Then r (Many r)"

definition opt :: "re \<Rightarrow> re" where
  "opt r = Or r Empty"

fun nullable :: "re \<Rightarrow> bool" where
  "nullable Fail = False"
| "nullable Empty = True"
| "nullable (Class p) = False"
| "nullable (Then r s) = (nullable r \<and> nullable s)"
| "nullable (Or r s) = (nullable r \<or> nullable s)"
| "nullable (Many r) = True"

fun deriv :: "char \<Rightarrow> re \<Rightarrow> re" where
  "deriv c Fail = Fail"
| "deriv c Empty = Fail"
| "deriv c (Class p) = (if p c then Empty else Fail)"
| "deriv c (Then r s) =
     (if nullable r then Or (Then (deriv c r) s) (deriv c s) else Then (deriv c r) s)"
| "deriv c (Or r s) = Or (deriv c r) (deriv c s)"
| "deriv c (Many r) = Then (deriv c r) (Many r)"

text \<open>\<open>/^r/.test(s)\<close>: some prefix of \<open>s\<close> matches \<open>r\<close>.\<close>

fun test :: "re \<Rightarrow> string \<Rightarrow> bool" where
  "test r [] = nullable r"
| "test r (c # cs) = (nullable r \<or> test (deriv c r) cs)"

text \<open>
  The words a pattern matches, for reference: \<open>test\<close> is shown below
  (\<open>test_lang\<close>) to hold exactly when a prefix of the subject is one of them.
\<close>

inductive_set repeats :: "string set \<Rightarrow> string set" for A :: "string set" where
  none: "[] \<in> repeats A"
| more: "u \<in> A \<Longrightarrow> v \<in> repeats A \<Longrightarrow> u @ v \<in> repeats A"

fun lang :: "re \<Rightarrow> string set" where
  "lang Fail = {}"
| "lang Empty = {[]}"
| "lang (Class p) = {[c] | c. p c}"
| "lang (Then r s) = {u @ v | u v. u \<in> lang r \<and> v \<in> lang s}"
| "lang (Or r s) = lang r \<union> lang s"
| "lang (Many r) = repeats (lang r)"

section \<open>Commit types and message helpers\<close>

text \<open>The \<open>value\<close> fields of \<open>COMMIT_TYPES\<close>, in the order of the source.\<close>

definition COMMIT_TYPES :: "string list" where
  "COMMIT_TYPES =
     [''feat'', ''fix'', ''to'', ''docs'', ''style'', ''refactor'', ''perf'', ''test'',
      ''chore'', ''revert'', ''merge'', ''sync'']"

text \<open>
  \<open>isRecognizedCommitType(value)\<close>; the argument is \<open>string | undefined\<close>, and the
  empty string is falsy like \<open>undefined\<close>.
\<close>

definition isRecognizedCommitType :: "string option \<Rightarrow> bool" where
  "isRecognizedCommitType v =
     (case v of None \<Rightarrow> False
      | Some s \<Rightarrow> if s = [] then False else list_ex (\<lambda>t. t = s) COMMIT_TYPES)"

definition allowedCommitTypesText :: string where
  "allowedCommitTypesText = join '', '' COMMIT_TYPES"

text \<open>The pattern \<open>/^[a-z]+(\([^)]+\))?!?:\s+/\<close>.\<close>

definition lower :: re where
  "lower = Class (\<lambda>c. CHR ''a'' \<le> c \<and> c \<le> CHR ''z'')"

definition conventionalPrefix :: re where
  "conventionalPrefix =
     Then (plus lower)
       (Then (opt (Then (lit CHR ''('') (Then (plus (notChar CHR '')'')) (lit CHR '')''))))
         (Then (opt (lit CHR ''!''))
           (Then (lit CHR '':'') (plus (Class isSpace)))))"

definition hasConventionalPrefix :: "string \<Rightarrow> bool" where
  "hasConventionalPrefix message = test conventionalPrefix (trim message)"

text \<open>
  \<open>getRemoteFromUpstream\<close>: \<open>indexOf("/")\<close> is the length of the longest prefix without
  a slash when there is a slash, and \<open>-1\<close> otherwise; \<open>slashIndex <= 0\<close> covers both the
  missing slash and the leading one.
\<close>

definition indexOf :: "string \<Rightarrow> char \<Rightarrow> int" where
  "indexOf s c = (if c \<in> set s then int (length (takeWhile (\<lambda>x. x \<noteq> c) s)) else - 1)"

definition getRemoteFromUpstream :: "string \<Rightarrow> string option" where
  "getRemoteFromUpstream upstream =
     (let slashIndex = indexOf upstream CHR ''/''
      in if slashIndex \<le> 0 then None else Some (take (nat slashIndex) upstream))"

section \<open>Effects\<close>

text \<open>
  Every function of the workflow awaits external commands, prompts and writes in a fixed
  order. A run is modelled by its result (\<open>Inl\<close> the thrown error, \<open>Inr\<close> the returned
  value) together with the list of external actions it performed, oldest first. The
  answers of the outside are read from a \<open>world\<close>, a script of responses. Progress lines
  of the logger (\<open>logStep\<close>, \<open>logHeading\<close>, \<open>logSuccess\<close>, \<open>logWarning\<close> and the
  listing of changed files; module \<open>log.js\<close>) influence nothing and are not recorded; the
  conflict report written to the error stream is.

  Each \<open>throw new Error(text)\<close> of the source is one constructor, named after the error
  kind of the specification and carrying the text.
\<close>

datatype error =
    NotAGitRepository string
  | DetachedHead string
  | InvalidSourceBranch string
  | NoRemoteConfigured string
  | UnknownCommitType string
  | MissingCommitMetadata string
  | MergeConflict string
  | SyncFailed string
  | MergeRequestFailed string
  | NoMergeRequestToolAvailable string

datatype action =
    GitCheckIsRepo
  | GitBranch
  | GitStatus
  | GitAdd "string list"
  | GitDiff "string list"
  | GitCommit string
  | GitRaw "string list"
  | GitGetRemotes
  | GitPull "(string \<times> string) option"
  | GitPush string string "string list"
  | GitFetch string string
  | GitMerge "string list"
  | LoadCicdConfigScopes string
  | Prompt string
  | RunCommandCapture string "string list" string
  | StderrWrite string

text \<open>The actions that change the repository, its index or the remote.\<close>

fun mutates :: "action \<Rightarrow> bool" where
  "mutates (GitAdd _) = True"
| "mutates (GitCommit _) = True"
| "mutates (GitPull _) = True"
| "mutates (GitPush _ _ _) = True"
| "mutates (GitFetch _ _) = True"
| "mutates (GitMerge _) = True"
| "mutates _ = False"

type_synonym 'a io = "(error + 'a) \<times> action list"

definition ret :: "'a \<Rightarrow> 'a io" where
  "ret x = (Inr x, [])"

definition throw :: "error \<Rightarrow> 'a io" where
  "throw e = (Inl e, [])"

text \<open>\<open>act a x\<close>: perform the action \<open>a\<close>, to which the outside answers \<open>x\<close>.\<close>

definition act :: "action \<Rightarrow> 'a \<Rightarrow> 'a io" where
  "act a x = (Inr x, [a])"

text \<open>Sequencing: an error ends the run, keeping the actions performed so far.\<close>

definition andThen :: "'a io \<Rightarrow> ('a \<Rightarrow> 'b io) \<Rightarrow> 'b io" where
  "andThen m f =
     (case m of
        (Inl e, t) \<Rightarrow> (Inl e, t)
      | (Inr x, t) \<Rightarrow> (case f x of (r, t') \<Rightarrow> (r, t @ t')))"

record StatusFile =
  path :: string
  index :: "string option"
  working_dir :: "string option"

record Captured =
  code :: int
  stdout :: string
  stderr :: string

text \<open>What \<open>new URL(text)\<close> yields, as far as the program reads it.\<close>

record Url =
  url_host :: string
  url_pathname :: string

text \<open>
  The responses of the outside. A command whose failure the source catches answers with
  an \<open>option\<close> or a flag (\<open>None\<close>, \<open>False\<close>: the promise rejects); the other commands
  answer with their value.

  \<open>newURL\<close> is the URL constructor of the platform: \<open>None\<close> where it throws.
\<close>

record world =
  isTTY :: bool
  processCwd :: string
  resolvePath :: "string \<Rightarrow> string"
  checkIsRepo :: bool
  branchCurrent :: string
  statusFiles :: "StatusFile list"
  diffCachedNames :: string
  subjectAnswer :: string
  typeAnswer :: string
  loadCicdConfigScopes :: "string \<Rightarrow> string list option"
  scopeChoice :: string
  scopeInput :: string
  revParseUpstream :: "string option"
  remoteNames :: "string list"
  lsRemoteHeads :: "string \<Rightarrow> string \<Rightarrow> string option"
  pullSucceeds :: bool
  fetchSucceeds :: bool
  mergeSucceeds :: bool
  statusConflicted :: "string list"
  remoteGetUrl :: "string \<Rightarrow> string"
  runCommandCapture :: "string \<Rightarrow> string list \<Rightarrow> string \<Rightarrow> Captured"
  newURL :: "string \<Rightarrow> Url option"

text \<open>\<open>!!v\<close> for \<open>v : string | undefined\<close>.\<close>

fun truthy :: "string option \<Rightarrow> bool" where
  "truthy None = False"
| "truthy (Some s) = (s \<noteq> [])"

section \<open>Commit Preparer\<close>

record CommitOptions =
  commitMessage :: "string option"
  commitType :: "string option"
  cwd :: "string option"

definition promptCommitType :: "world \<Rightarrow> string io" where
  "promptCommitType w = act (Prompt ''Select commit type (prefix):'') (typeAnswer w)"

text \<open>
  The prompt asks again until its \<open>validate\<close> accepts; \<open>subjectAnswer\<close> is the accepted
  answer.
\<close>

definition promptCommitSubject :: "world \<Rightarrow> string io" where
  "promptCommitSubject w =
     andThen (act (Prompt ''Enter commit subject (without prefix):'') (subjectAnswer w))
       (\<lambda>subject. ret (trim subject))"

text \<open>The \<open>validate\<close> of the free-text scope prompt: \<open>None\<close> for \<open>true\<close>, else the complaint.\<close>

definition validateScope :: "string \<Rightarrow> string option" where
  "validateScope v =
     (let trimmed = trim v
      in if trimmed = [] then None
         else if list_ex isSpace trimmed then Some ''Scope should not contain spaces''
         else if list_ex (\<lambda>c. c = CHR ''('' \<or> c = CHR '')'') trimmed
           then Some ''Scope should not include parentheses''
         else None)"

definition promptCommitScope :: "world \<Rightarrow> string \<Rightarrow> string io" where
  "promptCommitScope w dir =
     andThen (act (LoadCicdConfigScopes dir) (loadCicdConfigScopes w dir)) (\<lambda>scopes.
     andThen
       (if (case scopes of None \<Rightarrow> False | Some ss \<Rightarrow> length ss > 0)
        then andThen (act (Prompt ''Select commit scope (optional):'') (scopeChoice w))
               (\<lambda>scope. ret (if scope \<noteq> ''__custom__'' then Some scope else None))
        else ret None) (\<lambda>picked.
     case picked of
       Some scope \<Rightarrow> ret scope
     | None \<Rightarrow>
         andThen (act (Prompt ''Enter commit scope (optional):'') (scopeInput w))
           (\<lambda>scope. ret (trim scope))))"

text \<open>
  The conditional expression that builds \<open>finalMessage\<close>, from the message, the type and
  the scope as \<open>commitIfDirty\<close> holds them at that point.
\<close>

definition finalMessage :: "string \<Rightarrow> string option \<Rightarrow> string \<Rightarrow> string" where
  "finalMessage message type scope =
     (case type of
        None \<Rightarrow> message
      | Some t \<Rightarrow>
          if hasConventionalPrefix message \<or> t = [] then message
          else if scope \<noteq> [] then t @ ''('' @ scope @ ''): '' @ trim message
          else t @ '': '' @ trim message)"

text \<open>The validation of \<open>options.commitType\<close>.\<close>

definition checkCommitType :: "string option \<Rightarrow> string option io" where
  "checkCommitType ct =
     (if truthy ct then
        (let candidate = trim (case ct of Some t \<Rightarrow> t | None \<Rightarrow> [])
         in if \<not> isRecognizedCommitType (Some candidate)
            then throw (UnknownCommitType
                   (''unknown commit type: '' @ candidate @ '' (allowed: ''
                      @ allowedCommitTypesText @ '')''))
            else ret (Some candidate))
      else ret None)"

text \<open>
  The block \<open>if (!message || !type) { ... }\<close>: the checks of the non-interactive mode,
  then the prompts. It yields the message and the type as they stand after it.
\<close>

definition completeMessageAndType ::
    "world \<Rightarrow> string option \<Rightarrow> string option \<Rightarrow> (string \<times> string option) io" where
  "completeMessageAndType w message type =
     (let text = (case message of Some m \<Rightarrow> m | None \<Rightarrow> [])
      in if \<not> truthy message \<or> \<not> truthy type then
        andThen
          (if \<not> isTTY w then
             (if \<not> truthy message
              then throw (MissingCommitMetadata
                     ''working tree has changes; pass --message in non-interactive mode'')
              else if \<not> truthy type \<and> \<not> hasConventionalPrefix text
              then throw (MissingCommitMetadata
                     (''commit message has no type prefix; pass --type or use an ''
                        @ ''already-prefixed message like '' @ [CHR 0x27] @ ''feat: ...''
                        @ [CHR 0x27]))
              else ret ())
           else ret ()) (\<lambda>_.
        andThen (if \<not> truthy message then promptCommitSubject w else ret text) (\<lambda>message'.
        andThen
          (if \<not> truthy type \<and> \<not> hasConventionalPrefix message'
           then andThen (promptCommitType w) (\<lambda>t. ret (Some t))
           else ret type) (\<lambda>type'.
        ret (message', type'))))
      else ret (text, type))"

definition commitIfDirty :: "world \<Rightarrow> CommitOptions \<Rightarrow> unit io" where
  "commitIfDirty w options =
     andThen (act GitStatus (statusFiles w)) (\<lambda>files.
     if \<not> length files > 0 then ret ()
     else
       andThen (act (GitAdd [''-A'']) ()) (\<lambda>_.
       andThen (act (GitDiff [''--cached'', ''--name-only'']) (diffCachedNames w)) (\<lambda>out.
       if length (trim out) = 0 then ret ()
       else
         (let message = map_option trim (commitMessage options);
              shouldPromptScope = (isTTY w \<and> \<not> truthy (commitMessage options))
          in
            andThen (checkCommitType (commitType options)) (\<lambda>type.
            andThen (completeMessageAndType w message type) (\<lambda>(message', type').
            andThen
              (if shouldPromptScope \<and> truthy type' \<and> message' \<noteq> []
                    \<and> \<not> hasConventionalPrefix message'
               then promptCommitScope w (case cwd options of Some d \<Rightarrow> d | None \<Rightarrow> processCwd w)
               else ret []) (\<lambda>scope.
            act (GitCommit (finalMessage message' type' scope)) ())))))))"

section \<open>Repository Inspector, Remote Resolver, Sync-and-Push\<close>

definition getUpstreamRef :: "world \<Rightarrow> string option io" where
  "getUpstreamRef w =
     andThen
       (act (GitRaw [''rev-parse'', ''--abbrev-ref'', ''--symbolic-full-name'', ''@'' @ ''{u}''])
          (revParseUpstream w)) (\<lambda>answer.
     case answer of
       None \<Rightarrow> ret None
     | Some out \<Rightarrow>
         (let upstream = trim out in ret (if length upstream > 0 then Some upstream else None)))"

definition getPreferredRemote :: "world \<Rightarrow> string io" where
  "getPreferredRemote w =
     andThen (getUpstreamRef w) (\<lambda>upstream.
     (let remote = (if truthy upstream
                    then getRemoteFromUpstream (case upstream of Some u \<Rightarrow> u | None \<Rightarrow> [])
                    else None)
      in if truthy remote then ret (case remote of Some r \<Rightarrow> r | None \<Rightarrow> [])
         else
           andThen (act GitGetRemotes (remoteNames w)) (\<lambda>names.
           if ''origin'' \<in> set names then ret ''origin''
           else (case names of
                   first # _ \<Rightarrow> ret first
                 | [] \<Rightarrow> throw (NoRemoteConfigured
                           (''no git remotes found (expected '' @ [CHR 0x27] @ ''origin''
                              @ [CHR 0x27] @ '')''))))))"

definition remoteBranchExists :: "world \<Rightarrow> string \<Rightarrow> string \<Rightarrow> bool io" where
  "remoteBranchExists w remote branch =
     andThen (act (GitRaw [''ls-remote'', ''--heads'', remote, branch])
                (lsRemoteHeads w remote branch)) (\<lambda>answer.
     case answer of
       None \<Rightarrow> ret False
     | Some output \<Rightarrow> ret (length (trim output) > 0))"

text \<open>
  The \<open>catch\<close> block shared by the pull and the merge step: \<open>what\<close> is \<open>Pull\<close> or
  \<open>Merge\<close> in the report, \<open>cmd\<close> is \<open>pull\<close> or \<open>merge\<close> in the generic error.
\<close>

definition conflictReport :: "string \<Rightarrow> string list \<Rightarrow> string" where
  "conflictReport what conflicted =
     [CHR 0x0A] @ what @ '' resulted in conflicts:'' @ [CHR 0x0A]
       @ join [CHR 0x0A] (map (\<lambda>p. ''  '' @ p) conflicted) @ [CHR 0x0A]"

definition afterFailure :: "world \<Rightarrow> string \<Rightarrow> string \<Rightarrow> string \<Rightarrow> unit io" where
  "afterFailure w what cmd rerunCommandName =
     andThen (act GitStatus (statusConflicted w)) (\<lambda>conflicted.
     if length conflicted > 0 then
       andThen (act (StderrWrite (conflictReport what conflicted)) ()) (\<lambda>_.
       throw (MergeConflict (''please resolve conflicts, then rerun '' @ rerunCommandName)))
     else throw (SyncFailed (''git '' @ cmd @ '' failed; please fix and rerun'')))"

definition pullIfPossible :: "world \<Rightarrow> string \<Rightarrow> string \<Rightarrow> string \<Rightarrow> unit io" where
  "pullIfPossible w remote branch rerunCommandName =
     andThen (getUpstreamRef w) (\<lambda>upstream.
     (let hasUpstream = (upstream \<noteq> None)
      in andThen (if hasUpstream then ret True else remoteBranchExists w remote branch)
           (\<lambda>canPull.
           if \<not> canPull then ret ()
           else
             andThen
               (act (if hasUpstream then GitPull None else GitPull (Some (remote, branch)))
                  (pullSucceeds w)) (\<lambda>ok.
             if ok then ret () else afterFailure w ''Pull'' ''pull'' rerunCommandName))))"

definition pushCurrentBranch :: "world \<Rightarrow> string \<Rightarrow> string \<Rightarrow> unit io" where
  "pushCurrentBranch w remote branch =
     andThen (getUpstreamRef w) (\<lambda>upstream.
     (let hasUpstream = (upstream \<noteq> None);
          pushOptions = (if hasUpstream then [] else [''-u''])
      in act (GitPush remote branch pushOptions) ()))"

definition mergeRemoteBranchIntoCurrent ::
    "world \<Rightarrow> string \<Rightarrow> string \<Rightarrow> string \<Rightarrow> unit io" where
  "mergeRemoteBranchIntoCurrent w remote sourceBranch rerunCommandName =
     andThen (act (GitFetch remote sourceBranch) (fetchSucceeds w)) (\<lambda>fetched.
     andThen
       (if fetched then act (GitMerge [remote @ ''/'' @ sourceBranch]) (mergeSucceeds w)
        else ret False) (\<lambda>ok.
     if ok then ret () else afterFailure w ''Merge'' ''merge'' rerunCommandName))"

section \<open>Merge/PR Request Builder\<close>

datatype Provider = github | gitlab | unknown

record ParsedRemote =
  host :: string
  ownerPath :: string
  repo :: string
  provider :: Provider

text \<open>\<open>s.indexOf(c, from)\<close> and \<open>s.slice(a, b)\<close>, \<open>s.slice(a)\<close>.\<close>

definition indexOfFrom :: "string \<Rightarrow> char \<Rightarrow> int \<Rightarrow> int" where
  "indexOfFrom s c from =
     (let k = nat (max 0 (min from (int (length s))))
      in if c \<in> set (drop k s)
         then int k + int (length (takeWhile (\<lambda>x. x \<noteq> c) (drop k s)))
         else - 1)"

definition clampIndex :: "string \<Rightarrow> int \<Rightarrow> nat" where
  "clampIndex s i =
     (let n = int (length s) in nat (if i < 0 then max (n + i) 0 else min i n))"

definition slice :: "string \<Rightarrow> int \<Rightarrow> int \<Rightarrow> string" where
  "slice s a b = take (clampIndex s b - clampIndex s a) (drop (clampIndex s a) s)"

definition sliceFrom :: "string \<Rightarrow> int \<Rightarrow> string" where
  "sliceFrom s a = drop (clampIndex s a) s"

text \<open>The pattern \<open>/^[^@]+@[^:]+:.+/\<close>; the dot excludes the line terminators.\<close>

definition dot :: re where
  "dot = Class (\<lambda>c. c \<noteq> CHR 0x0A \<and> c \<noteq> CHR 0x0D)"

definition scpStyle :: re where
  "scpStyle =
     Then (plus (notChar CHR ''@''))
       (Then (lit CHR ''@'')
         (Then (plus (notChar CHR '':''))
           (Then (lit CHR '':'') (plus dot))))"

text \<open>\<open>replace(/\.git$/, "")\<close>, \<open>replace(/\/+$/, "")\<close> and \<open>replace(/^\/+/, "")\<close>.\<close>

definition dropGitSuffix :: "string \<Rightarrow> string" where
  "dropGitSuffix s = (if endsWith s ''.git'' then take (length s - 4) s else s)"

definition dropTrailingSlashes :: "string \<Rightarrow> string" where
  "dropTrailingSlashes s = rev (dropWhile (\<lambda>c. c = CHR ''/'') (rev s))"

definition dropLeadingSlashes :: "string \<Rightarrow> string" where
  "dropLeadingSlashes s = dropWhile (\<lambda>c. c = CHR ''/'') s"

text \<open>
  The first half of \<open>parseRemoteUrl\<close>: the branches that assign \<open>host\<close> and \<open>path\<close>
  from the trimmed text, \<open>None\<close> where they return \<open>null\<close>.
\<close>

definition hostAndPath :: "(string \<Rightarrow> Url option) \<Rightarrow> string \<Rightarrow> (string \<times> string) option" where
  "hostAndPath ctor trimmed =
     (if test scpStyle trimmed then
        (let atIndex = indexOf trimmed CHR ''@'';
             colonIndex = indexOfFrom trimmed CHR '':'' atIndex
         in Some (slice trimmed (atIndex + 1) colonIndex, sliceFrom trimmed (colonIndex + 1)))
      else if startsWith trimmed ''ssh://'' \<or> startsWith trimmed ''http://''
                \<or> startsWith trimmed ''https://'' then
        (case ctor trimmed of
           None \<Rightarrow> None
         | Some url \<Rightarrow> Some (url_host url, dropLeadingSlashes (url_pathname url)))
      else None)"

text \<open>\<open>normalized.split("/").filter(Boolean)\<close>.\<close>

definition pathParts :: "string \<Rightarrow> string list" where
  "pathParts p =
     filter (\<lambda>x. x \<noteq> []) (split CHR ''/'' (dropTrailingSlashes (dropGitSuffix p)))"

definition parseRemoteUrl :: "(string \<Rightarrow> Url option) \<Rightarrow> string \<Rightarrow> ParsedRemote option" where
  "parseRemoteUrl ctor remoteUrl =
     (let trimmed = trim remoteUrl
      in if trimmed = [] then None
         else
           (case hostAndPath ctor trimmed of
              None \<Rightarrow> None
            | Some (h, p) \<Rightarrow>
                if h = [] \<or> p = [] then None
                else
                  (let parts = pathParts p
                   in if length parts < 2 then None
                      else Some \<lparr>host = h,
                                 ownerPath = join ''/'' (butlast parts),
                                 repo = last parts,
                                 provider =
                                   (if includesStr h ''github'' then github
                                    else if includesStr h ''gitlab'' then gitlab
                                    else unknown)\<rparr>)))"

text \<open>
  \<open>encodeURIComponent\<close> on code units below 256: the unreserved characters stay, every
  other one becomes the percent-escapes of its UTF-8 bytes.
\<close>

definition unreserved :: "char \<Rightarrow> bool" where
  "unreserved c \<longleftrightarrow>
     (CHR ''A'' \<le> c \<and> c \<le> CHR ''Z'') \<or> (CHR ''a'' \<le> c \<and> c \<le> CHR ''z'')
       \<or> (CHR ''0'' \<le> c \<and> c \<le> CHR ''9'') \<or> c \<in> set (''-_.!~*()'' @ [CHR 0x27])"

definition hexDigit :: "nat \<Rightarrow> char" where
  "hexDigit n = ''0123456789ABCDEF'' ! (n mod 16)"

definition percent :: "nat \<Rightarrow> string" where
  "percent b = [CHR ''%'', hexDigit (b div 16), hexDigit b]"

definition encodeChar :: "char \<Rightarrow> string" where
  "encodeChar c =
     (let n = (of_char c :: nat)
      in if unreserved c then [c]
         else if n < 128 then percent n
         else percent (192 + n div 64) @ percent (128 + n mod 64))"

definition encodeURIComponent :: "string \<Rightarrow> string" where
  "encodeURIComponent s = concat (map encodeChar s)"

definition buildCreateMrUrl :: "ParsedRemote \<Rightarrow> string \<Rightarrow> string \<Rightarrow> string option" where
  "buildCreateMrUrl parsed sourceBranch targetBranch =
     (let base = ''https://'' @ host parsed @ ''/'' @ ownerPath parsed @ ''/'' @ repo parsed;
          source = encodeURIComponent sourceBranch;
          target = encodeURIComponent targetBranch
      in if provider parsed = github
         then Some (base @ ''/compare/'' @ target @ ''...'' @ source @ ''?expand=1'')
         else if provider parsed = gitlab
         then Some (base @ ''/-/merge_requests/new?merge_request[source_branch]='' @ source
                      @ ''&merge_request[target_branch]='' @ target)
         else None)"

definition commandExists :: "world \<Rightarrow> string \<Rightarrow> bool io" where
  "commandExists w command =
     andThen (act (RunCommandCapture ''which'' [command] (processCwd w))
                (runCommandCapture w ''which'' [command] (processCwd w)))
       (\<lambda>r. ret (code r = 0))"

text \<open>\<open>stderr || stdout || ""\<close>.\<close>

definition firstNonEmpty :: "string \<Rightarrow> string \<Rightarrow> string" where
  "firstNonEmpty a b = (if a \<noteq> [] then a else b)"

record MergeRequestOptions =
  mr_cwd :: string
  parsedRemote :: "ParsedRemote option"
  sourceBranch :: string
  targetBranch :: string

definition glabArgs :: "MergeRequestOptions \<Rightarrow> string list" where
  "glabArgs options =
     [''mr'', ''create'', ''--source-branch'', sourceBranch options,
      ''--target-branch'', targetBranch options, ''--fill'', ''--yes'']"

definition ghArgs :: "MergeRequestOptions \<Rightarrow> string list" where
  "ghArgs options =
     [''pr'', ''create'', ''--base'', targetBranch options, ''--head'', sourceBranch options,
      ''--fill'', ''--json'', ''url'', ''-q'', ''.url'']"

text \<open>
  The loop over the candidate tools. It yields \<open>True\<close> where the source returns from
  inside the loop (a request was created) and \<open>False\<close> where the loop runs out.
\<close>

fun tryTools :: "world \<Rightarrow> MergeRequestOptions \<Rightarrow> string list \<Rightarrow> bool io" where
  "tryTools w options [] = ret False"
| "tryTools w options (tool # rest) =
     andThen (commandExists w tool) (\<lambda>exists.
     if \<not> exists then tryTools w options rest
     else if tool = ''glab'' then
       andThen (act (RunCommandCapture ''glab'' (glabArgs options) (mr_cwd options))
                  (runCommandCapture w ''glab'' (glabArgs options) (mr_cwd options))) (\<lambda>r.
       if code r = 0 then ret True
       else throw (MergeRequestFailed
              (trim (''failed to create merge request via glab.'' @ [CHR 0x0A]
                       @ firstNonEmpty (stderr r) (stdout r)))))
     else if tool = ''gh'' then
       andThen (act (RunCommandCapture ''gh'' (ghArgs options) (mr_cwd options))
                  (runCommandCapture w ''gh'' (ghArgs options) (mr_cwd options))) (\<lambda>r.
       if code r = 0 then ret True
       else throw (MergeRequestFailed
              (trim (''failed to create pull request via gh.'' @ [CHR 0x0A]
                       @ firstNonEmpty (stderr r) (stdout r)))))
     else tryTools w options rest)"

definition candidates :: "ParsedRemote option \<Rightarrow> string list" where
  "candidates parsed =
     (let preferGitLab = (case parsed of Some p \<Rightarrow> provider p = gitlab | None \<Rightarrow> False);
          preferGitHub = (case parsed of Some p \<Rightarrow> provider p = github | None \<Rightarrow> False)
      in if preferGitLab then [''glab'', ''gh'']
         else if preferGitHub then [''gh'', ''glab'']
         else [''glab'', ''gh''])"

definition manualUrl :: "MergeRequestOptions \<Rightarrow> string option" where
  "manualUrl options =
     (case parsedRemote options of
        Some p \<Rightarrow> buildCreateMrUrl p (sourceBranch options) (targetBranch options)
      | None \<Rightarrow> None)"

text \<open>The lines of the last error, before \<open>filter(Boolean).join("\n")\<close>.\<close>

definition hintLines :: "string option \<Rightarrow> string option list" where
  "hintLines mrUrl =
     [Some ''no supported MR/PR tool found (install one):'',
      Some ''- GitLab: glab (https://github.com/profclems/glab)'',
      Some ''- GitHub: gh (https://github.com/cli/cli)'',
      (if truthy mrUrl then Some (''manual link: '' @ (case mrUrl of Some u \<Rightarrow> u | None \<Rightarrow> []))
       else None)]"

definition hint :: "string option \<Rightarrow> string" where
  "hint mrUrl = join [CHR 0x0A] (map (\<lambda>l. case l of Some x \<Rightarrow> x | None \<Rightarrow> [])
                                   (filter truthy (hintLines mrUrl)))"

definition createMergeRequest :: "world \<Rightarrow> MergeRequestOptions \<Rightarrow> unit io" where
  "createMergeRequest w options =
     (let mrUrl = manualUrl options
      in andThen (tryTools w options (candidates (parsedRemote options))) (\<lambda>created.
         if created then ret ()
         else throw (NoMergeRequestToolAvailable (hint mrUrl))))"

section \<open>Promote to main\<close>

record ToMainOptions = CommitOptions +
  branch :: "string option"

text \<open>\<open>options.branch?.trim() ? options.branch.trim() : "main"\<close>.\<close>

definition toMainTarget :: "ToMainOptions \<Rightarrow> string" where
  "toMainTarget options =
     (if truthy (map_option trim (branch options))
      then trim (case branch options of Some b \<Rightarrow> b | None \<Rightarrow> [])
      else ''main'')"

definition toMain :: "world \<Rightarrow> ToMainOptions \<Rightarrow> unit io" where
  "toMain w options =
     (let dir = (if truthy (cwd options)
                 then resolvePath w (case cwd options of Some d \<Rightarrow> d | None \<Rightarrow> [])
                 else processCwd w);
          target = toMainTarget options
      in
        andThen (act GitCheckIsRepo (checkIsRepo w)) (\<lambda>isRepo.
        if \<not> isRepo then throw (NotAGitRepository ''not inside a git repository'')
        else
          andThen (act GitBranch (branchCurrent w)) (\<lambda>currentBranch.
          if currentBranch = [] \<or> currentBranch = ''HEAD''
          then throw (DetachedHead ''detached HEAD; checkout a branch first'')
          else if currentBranch = target
          then throw (InvalidSourceBranch
                 (''cannot run to-main on '' @ [CHR 0x27] @ target @ [CHR 0x27]
                    @ '' branch; checkout another branch first''))
          else
            andThen (commitIfDirty w
                       \<lparr>commitMessage = commitMessage options,
                        commitType = commitType options, cwd = None\<rparr>) (\<lambda>_.
            andThen (getPreferredRemote w) (\<lambda>remote.
            andThen (pullIfPossible w remote currentBranch ''to-main'') (\<lambda>_.
            andThen (pushCurrentBranch w remote currentBranch) (\<lambda>_.
            andThen (act (GitRaw [''remote'', ''get-url'', remote]) (remoteGetUrl w remote))
              (\<lambda>out.
            (let remoteUrl = trim out;
                 parsed = parseRemoteUrl (newURL w) remoteUrl
             in createMergeRequest w
                  \<lparr>mr_cwd = dir, parsedRemote = parsed,
                   sourceBranch = currentBranch, targetBranch = target\<rparr>)))))))))"

section \<open>A scripted world for examples\<close>

text \<open>
  A stand-in for the URL constructor on plain remote addresses: scheme, optional user,
  lower-case host, path. It is not the constructor of the platform, which also lowers the
  case of the host, drops default ports, resolves dot segments and escapes characters; it
  instantiates the constructor parameter in the examples below, at addresses where the two
  agree.
\<close>

definition plainUrl :: "string \<Rightarrow> Url option" where
  "plainUrl s =
     (let rest = (if startsWith s ''https://'' then drop 8 s
                  else if startsWith s ''http://'' then drop 7 s
                  else if startsWith s ''ssh://'' then drop 6 s
                  else []);
          authority = takeWhile (\<lambda>c. c \<noteq> CHR ''/'') rest;
          h = rev (takeWhile (\<lambda>c. c \<noteq> CHR ''@'') (rev authority))
      in if h = [] then None
         else Some \<lparr>url_host = h, url_pathname = dropWhile (\<lambda>c. c \<noteq> CHR ''/'') rest\<rparr>)"

text \<open>
  A non-interactive run on branch \<open>feat-x\<close> tracking \<open>origin/feat-x\<close>, one modified
  file, remotes \<open>upstream\<close> and \<open>origin\<close> in that listing order, no provider tool on
  the path. The examples change single fields of it.
\<close>

definition sampleWorld :: world where
  "sampleWorld =
     \<lparr>isTTY = False,
      processCwd = ''/repo'',
      resolvePath = (\<lambda>p. p),
      checkIsRepo = True,
      branchCurrent = ''feat-x'',
      statusFiles = [\<lparr>path = ''a.txt'', index = Some ''M'', working_dir = Some '' ''\<rparr>],
      diffCachedNames = ''a.txt'' @ [CHR 0x0A],
      subjectAnswer = ''add login'',
      typeAnswer = ''feat'',
      loadCicdConfigScopes = (\<lambda>_. None),
      scopeChoice = [],
      scopeInput = ''core'',
      revParseUpstream = Some (''origin/feat-x'' @ [CHR 0x0A]),
      remoteNames = [''upstream'', ''origin''],
      lsRemoteHeads = (\<lambda>_ _. None),
      pullSucceeds = True,
      fetchSucceeds = True,
      mergeSucceeds = True,
      statusConflicted = [],
      remoteGetUrl = (\<lambda>_. ''git@github.com:acme/widget.git''),
      runCommandCapture = (\<lambda>_ _ _. \<lparr>code = 1, stdout = [], stderr = []\<rparr>),
      newURL = plainUrl\<rparr>"

section \<open>Notions for the statements about request creation\<close>

text \<open>
  Whether \<open>which tool\<close> exits with 0; the probe and the create command as actions; the
  answer to the create command; the text of the error thrown when it exits non-zero.
\<close>

definition onPath :: "world \<Rightarrow> string \<Rightarrow> bool" where
  "onPath w tool \<longleftrightarrow> code (runCommandCapture w ''which'' [tool] (processCwd w)) = 0"

definition whichCall :: "world \<Rightarrow> string \<Rightarrow> action" where
  "whichCall w tool = RunCommandCapture ''which'' [tool] (processCwd w)"

definition createArgs :: "MergeRequestOptions \<Rightarrow> string \<Rightarrow> string list" where
  "createArgs options tool = (if tool = ''glab'' then glabArgs options else ghArgs options)"

definition createCall :: "MergeRequestOptions \<Rightarrow> string \<Rightarrow> action" where
  "createCall options tool = RunCommandCapture tool (createArgs options tool) (mr_cwd options)"

definition createAnswer :: "world \<Rightarrow> MergeRequestOptions \<Rightarrow> string \<Rightarrow> Captured" where
  "createAnswer w options tool =
     runCommandCapture w tool (createArgs options tool) (mr_cwd options)"

definition failureText :: "string \<Rightarrow> Captured \<Rightarrow> string" where
  "failureText tool r =
     trim ((if tool = ''glab'' then ''failed to create merge request via glab.''
            else ''failed to create pull request via gh.'')
           @ [CHR 0x0A] @ firstNonEmpty (stderr r) (stdout r))"

text \<open>
  The sample world with \<open>glab\<close> alone on the path, where every create command exits
  with 1 and a complaint on the error stream.
\<close>

definition glabWorld :: world where
  "glabWorld =
     sampleWorld\<lparr>runCommandCapture :=
       (\<lambda>command args dir.
          if command = ''which''
          then \<lparr>code = (if args = [''glab''] then 0 else 1), stdout = [], stderr = []\<rparr>
          else \<lparr>code = 1, stdout = [], stderr = ''401 Unauthorized'' @ [CHR 0x0A]\<rparr>)\<rparr>"

text \<open>
  The sample world after a pull and a merge that both fail and leave two conflicted paths.
\<close>

definition conflictWorld :: world where
  "conflictWorld =
     sampleWorld\<lparr>pullSucceeds := False, mergeSucceeds := False,
                  statusConflicted := [''a.txt'', ''b/c.txt'']\<rparr>"

section \<open>Basic facts\<close>

lemmas string_defs =
  trim_def isSpace_def endsWith_def indexOf_def indexOfFrom_def clampIndex_def slice_def
  sliceFrom_def dropGitSuffix_def dropTrailingSlashes_def dropLeadingSlashes_def

lemmas pattern_defs =
  hasConventionalPrefix_def conventionalPrefix_def scpStyle_def lower_def dot_def plus_def
  opt_def lit_def notChar_def

lemma andThen_ret [simp]: "andThen (ret x) f = f x"
  by (simp add: andThen_def ret_def split: prod.splits)

lemma andThen_throw [simp]: "andThen (throw e) f = throw e"
  by (simp add: andThen_def throw_def)

lemma andThen_act [simp]: "andThen (act a x) f = (fst (f x), a # snd (f x))"
  by (simp add: andThen_def act_def split: prod.splits)

lemma andThen_Inr [simp]: "andThen (Inr x, t) f = (fst (f x), t @ snd (f x))"
  by (simp add: andThen_def split: prod.splits)

lemma andThen_Inl [simp]: "andThen (Inl e, t) f = (Inl e, t)"
  by (simp add: andThen_def)

lemma fst_ret [simp]: "fst (ret x) = Inr x"
  by (simp add: ret_def)

lemma snd_ret [simp]: "snd (ret x) = []"
  by (simp add: ret_def)

lemma fst_throw [simp]: "fst (throw e) = Inl e"
  by (simp add: throw_def)

lemma snd_throw [simp]: "snd (throw e) = []"
  by (simp add: throw_def)

lemma fst_act [simp]: "fst (act a x) = Inr x"
  by (simp add: act_def)

lemma snd_act [simp]: "snd (act a x) = [a]"
  by (simp add: act_def)

subsection \<open>The matcher decides prefix membership\<close>

lemma nullable_lang: "nullable r \<longleftrightarrow> [] \<in> lang r"
  by (induction r) (auto intro: repeats.none)

lemma repeats_split:
  assumes "x \<in> repeats A" "x \<noteq> []"
  shows "\<exists>u v. x = u @ v \<and> u \<in> A \<and> u \<noteq> [] \<and> v \<in> repeats A"
  using assms
proof (induction rule: repeats.induct)
  case none
  then show ?case by simp
next
  case (more u v)
  show ?case
  proof (cases "u = []")
    case True
    then show ?thesis using more by simp
  next
    case False
    then show ?thesis using more by blast
  qed
qed

lemma deriv_lang: "w \<in> lang (deriv c r) \<longleftrightarrow> c # w \<in> lang r"
proof (induction r arbitrary: w)
  case Fail
  show ?case by simp
next
  case Empty
  show ?case by simp
next
  case (Class p)
  show ?case by auto
next
  case (Then r s)
  have "c # w \<in> lang (Then r s) \<longleftrightarrow>
      (nullable r \<and> c # w \<in> lang s) \<or> (\<exists>u v. w = u @ v \<and> c # u \<in> lang r \<and> v \<in> lang s)"
  proof
    assume "c # w \<in> lang (Then r s)"
    then obtain u v where uv: "c # w = u @ v" "u \<in> lang r" "v \<in> lang s" by auto
    show "(nullable r \<and> c # w \<in> lang s) \<or> (\<exists>u v. w = u @ v \<and> c # u \<in> lang r \<and> v \<in> lang s)"
    proof (cases u)
      case Nil
      then show ?thesis using uv by (simp add: nullable_lang)
    next
      case (Cons a u')
      then show ?thesis using uv by auto
    qed
  next
    assume "(nullable r \<and> c # w \<in> lang s) \<or> (\<exists>u v. w = u @ v \<and> c # u \<in> lang r \<and> v \<in> lang s)"
    then show "c # w \<in> lang (Then r s)"
    proof
      assume "nullable r \<and> c # w \<in> lang s"
      then have "[] \<in> lang r" "c # w \<in> lang s" by (simp_all add: nullable_lang)
      then have "[] @ (c # w) \<in> lang (Then r s)" by (simp del: append_Nil) blast
      then show ?thesis by simp
    next
      assume "\<exists>u v. w = u @ v \<and> c # u \<in> lang r \<and> v \<in> lang s"
      then obtain u v where "w = u @ v" "c # u \<in> lang r" "v \<in> lang s" by blast
      then have "(c # u) @ v \<in> lang (Then r s)" by (simp del: append_Cons) blast
      then show ?thesis using \<open>w = u @ v\<close> by simp
    qed
  qed
  then show ?case using Then by auto
next
  case (Or r s)
  then show ?case by simp
next
  case (Many r)
  have "c # w \<in> repeats (lang r) \<longleftrightarrow>
      (\<exists>u v. w = u @ v \<and> c # u \<in> lang r \<and> v \<in> repeats (lang r))"
  proof
    assume "c # w \<in> repeats (lang r)"
    then obtain u v where uv: "c # w = u @ v" "u \<in> lang r" "u \<noteq> []" "v \<in> repeats (lang r)"
      using repeats_split [of "c # w" "lang r"] by auto
    then obtain u' where "u = c # u'" by (cases u) auto
    then show "\<exists>u v. w = u @ v \<and> c # u \<in> lang r \<and> v \<in> repeats (lang r)"
      using uv by auto
  next
    assume "\<exists>u v. w = u @ v \<and> c # u \<in> lang r \<and> v \<in> repeats (lang r)"
    then obtain u v where uv: "w = u @ v" "c # u \<in> lang r" "v \<in> repeats (lang r)" by blast
    then have "(c # u) @ v \<in> repeats (lang r)" by (intro repeats.more)
    then show "c # w \<in> repeats (lang r)" using uv by simp
  qed
  then show ?case using Many by auto
qed

lemma test_lang: "test r s \<longleftrightarrow> (\<exists>p q. s = p @ q \<and> p \<in> lang r)"
proof (induction s arbitrary: r)
  case Nil
  show ?case by (simp add: nullable_lang)
next
  case (Cons c s)
  have "(\<exists>p q. c # s = p @ q \<and> p \<in> lang r) \<longleftrightarrow>
      [] \<in> lang r \<or> (\<exists>p q. s = p @ q \<and> c # p \<in> lang r)"
  proof
    assume "\<exists>p q. c # s = p @ q \<and> p \<in> lang r"
    then obtain p q where pq: "c # s = p @ q" "p \<in> lang r" by blast
    show "[] \<in> lang r \<or> (\<exists>p q. s = p @ q \<and> c # p \<in> lang r)"
    proof (cases p)
      case Nil
      then show ?thesis using pq by simp
    next
      case (Cons a p')
      then show ?thesis using pq by auto
    qed
  next
    assume "[] \<in> lang r \<or> (\<exists>p q. s = p @ q \<and> c # p \<in> lang r)"
    then show "\<exists>p q. c # s = p @ q \<and> p \<in> lang r"
    proof
      assume "[] \<in> lang r"
      then have "c # s = [] @ (c # s) \<and> [] \<in> lang r" by simp
      then show ?thesis by blast
    next
      assume "\<exists>p q. s = p @ q \<and> c # p \<in> lang r"
      then obtain p q where "s = p @ q" "c # p \<in> lang r" by blast
      then have "c # s = (c # p) @ q \<and> c # p \<in> lang r" by simp
      then show ?thesis by blast
    qed
  qed
  then show ?case using Cons [of "deriv c r"] by (simp add: nullable_lang deriv_lang)
qed

subsection \<open>Trimming\<close>

lemma dropWhile_hd_id: "xs = [] \<or> \<not> P (hd xs) \<Longrightarrow> dropWhile P xs = xs"
  by (cases xs) auto

lemma dropWhile_head: "dropWhile P xs = [] \<or> \<not> P (hd (dropWhile P xs))"
  by (metis hd_dropWhile)

lemma strip_end_head:
  assumes "a = [] \<or> \<not> P (hd a)"
  shows "rev (dropWhile P (rev a)) = [] \<or> \<not> P (hd (rev (dropWhile P (rev a))))"
proof -
  let ?b = "rev (dropWhile P (rev a))"
  have "rev a = takeWhile P (rev a) @ dropWhile P (rev a)" by simp
  then have "rev (rev a) = rev (takeWhile P (rev a) @ dropWhile P (rev a))" by simp
  then have a: "a = ?b @ rev (takeWhile P (rev a))"
    by (simp only: rev_rev_ident rev_append)
  show ?thesis
  proof (cases "?b = []")
    case True
    then show ?thesis by simp
  next
    case False
    then have "hd a = hd ?b" using a by (metis hd_append2)
    moreover have "a \<noteq> []" using False a by auto
    ultimately show ?thesis using assms by auto
  qed
qed

lemma trim_idem: "trim (trim s) = trim s"
proof -
  let ?a = "dropWhile isSpace s"
  let ?b = "rev (dropWhile isSpace (rev ?a))"
  have "?b = [] \<or> \<not> isSpace (hd ?b)"
    by (rule strip_end_head) (rule dropWhile_head)
  then have "dropWhile isSpace ?b = ?b" by (rule dropWhile_hd_id)
  then show ?thesis by (simp add: trim_def)
qed

lemma trim_nonempty_arg: "trim m \<noteq> [] \<Longrightarrow> m \<noteq> []"
  by (auto simp: trim_def)

lemma no_space_trim: "\<not> list_ex isSpace s \<Longrightarrow> trim s = s"
proof -
  assume "\<not> list_ex isSpace s"
  then have a: "\<forall>c \<in> set s. \<not> isSpace c" by (simp add: list_ex_iff)
  have "s = [] \<or> \<not> isSpace (hd s)" using a by (cases s) auto
  then have 1: "dropWhile isSpace s = s" by (rule dropWhile_hd_id)
  have "rev s = [] \<or> \<not> isSpace (hd (rev s))"
    using a by (cases s rule: rev_cases) auto
  then have 2: "dropWhile isSpace (rev s) = rev s" by (rule dropWhile_hd_id)
  show ?thesis by (simp add: trim_def 1 2)
qed

lemma hasConventionalPrefix_trim: "hasConventionalPrefix (trim m) = hasConventionalPrefix m"
  by (simp add: hasConventionalPrefix_def trim_idem)

lemma conventionalPrefix_not_nullable: "\<not> nullable conventionalPrefix"
  by (simp add: conventionalPrefix_def plus_def)

lemma hasConventionalPrefix_nonempty: "hasConventionalPrefix m \<Longrightarrow> trim m \<noteq> []"
  using conventionalPrefix_not_nullable by (auto simp: hasConventionalPrefix_def)

lemma allowedCommitTypesText_eq:
  "allowedCommitTypesText =
     ''feat, fix, to, docs, style, refactor, perf, test, chore, revert, merge, sync''"
  by (simp add: allowedCommitTypesText_def COMMIT_TYPES_def)

section \<open>Commit Preparer: prefixed messages\<close>

text \<open>
  C1, as stated: every supplied message that carries a conventional prefix after trimming is
  committed verbatim, whether or not a commit type was supplied as well.

  The code does otherwise at two inputs. With the message \<open>feat: x\<close> and the type
  \<open>bogus\<close> the type check throws before the message is looked at, and nothing is
  committed. With the message \<open> feat: x\<close> (a leading space) the commit carries the
  trimmed text \<open>feat: x\<close>, not the text supplied.
\<close>

theorem C1_counterexample:
  "hasConventionalPrefix ''feat: x''
   \<and> commitIfDirty sampleWorld
        \<lparr>commitMessage = Some ''feat: x'', commitType = Some ''bogus'', cwd = None\<rparr>
      = (Inl (UnknownCommitType
            (''unknown commit type: bogus (allowed: feat, fix, to, docs, style, refactor, ''
               @ ''perf, test, chore, revert, merge, sync)'')),
         [GitStatus, GitAdd [''-A''], GitDiff [''--cached'', ''--name-only'']])
   \<and> hasConventionalPrefix '' feat: x''
   \<and> commitIfDirty sampleWorld
        \<lparr>commitMessage = Some '' feat: x'', commitType = None, cwd = None\<rparr>
      = (Inr (),
         [GitStatus, GitAdd [''-A''], GitDiff [''--cached'', ''--name-only''],
          GitCommit ''feat: x''])"
proof -
  have p1: "hasConventionalPrefix ''feat: x''"
    by (simp add: string_defs pattern_defs)
  have p2: "hasConventionalPrefix '' feat: x''"
    by (simp add: string_defs pattern_defs)
  have t1: "trim ''bogus'' = ''bogus''" "trim '' feat: x'' = ''feat: x''"
    "trim ''feat: x'' = ''feat: x''" "trim (''a.txt'' @ [CHR 0x0A]) = ''a.txt''"
    by (simp_all add: string_defs)
  have bogus: "\<not> isRecognizedCommitType (Some ''bogus'')"
    by (simp add: isRecognizedCommitType_def COMMIT_TYPES_def)
  have r1: "commitIfDirty sampleWorld
        \<lparr>commitMessage = Some ''feat: x'', commitType = Some ''bogus'', cwd = None\<rparr>
      = (Inl (UnknownCommitType
            (''unknown commit type: bogus (allowed: feat, fix, to, docs, style, refactor, ''
               @ ''perf, test, chore, revert, merge, sync)'')),
         [GitStatus, GitAdd [''-A''], GitDiff [''--cached'', ''--name-only'']])"
    using t1 bogus
    by (simp add: commitIfDirty_def checkCommitType_def allowedCommitTypesText_eq
        sampleWorld_def Let_def)
  have r2: "commitIfDirty sampleWorld
        \<lparr>commitMessage = Some '' feat: x'', commitType = None, cwd = None\<rparr>
      = (Inr (),
         [GitStatus, GitAdd [''-A''], GitDiff [''--cached'', ''--name-only''],
          GitCommit ''feat: x''])"
    using t1 p1
    by (simp add: commitIfDirty_def checkCommitType_def completeMessageAndType_def
        finalMessage_def sampleWorld_def Let_def)
  show ?thesis using p1 p2 r1 r2 by simp
qed

text \<open>
  C1, amended: on a dirty tree with a non-empty staged diff, in either mode, a supplied
  message whose trimmed form matches the conventional-prefix pattern is committed as its
  trimmed form, with no type prefix and no scope prepended and with no prompt, both when no
  commit type is supplied and when the supplied type is (after trimming) a recognized one.
\<close>

theorem C1_prefixed_message_kept:
  assumes dirty: "statusFiles w \<noteq> []"
    and staged: "trim (diffCachedNames w) \<noteq> []"
    and msg: "commitMessage options = Some m"
    and pre: "hasConventionalPrefix m"
    and ty: "\<not> truthy (commitType options)
             \<or> isRecognizedCommitType (map_option trim (commitType options))"
  shows "commitIfDirty w options =
     (Inr (),
      [GitStatus, GitAdd [''-A''], GitDiff [''--cached'', ''--name-only''],
       GitCommit (trim m)])"
proof -
  have m1: "trim m \<noteq> []" using pre by (rule hasConventionalPrefix_nonempty)
  have m2: "m \<noteq> []" using m1 by (rule trim_nonempty_arg)
  have p2: "hasConventionalPrefix (trim m)" using pre by (simp add: hasConventionalPrefix_trim)
  show ?thesis
  proof (cases "truthy (commitType options)")
    case False
    then have ct: "checkCommitType (commitType options) = ret None"
      by (simp add: checkCommitType_def)
    show ?thesis using dirty staged msg m1 m2 p2
      by (simp add: commitIfDirty_def ct completeMessageAndType_def finalMessage_def Let_def)
  next
    case True
    then obtain t where t: "commitType options = Some t" "t \<noteq> []"
      by (cases "commitType options") auto
    with ty have known: "isRecognizedCommitType (Some (trim t))" by simp
    then have tt: "trim t \<noteq> []"
      by (auto simp: isRecognizedCommitType_def split: if_splits)
    have ct: "checkCommitType (commitType options) = ret (Some (trim t))"
      using t known by (simp add: checkCommitType_def)
    show ?thesis using dirty staged msg m1 m2 p2 tt
      by (simp add: commitIfDirty_def ct completeMessageAndType_def finalMessage_def Let_def)
  qed
qed

theorem C1_prefixed_message_kept_witness:
  "statusFiles sampleWorld \<noteq> []
   \<and> trim (diffCachedNames sampleWorld) \<noteq> []
   \<and> hasConventionalPrefix '' feat(core)!: add login''
   \<and> isRecognizedCommitType (map_option trim (Some ''fix''))
   \<and> commitIfDirty (sampleWorld\<lparr>isTTY := True\<rparr>)
        \<lparr>commitMessage = Some '' feat(core)!: add login'', commitType = Some ''fix'',
         cwd = None\<rparr>
      = (Inr (),
         [GitStatus, GitAdd [''-A''], GitDiff [''--cached'', ''--name-only''],
          GitCommit ''feat(core)!: add login''])"
proof -
  have h1: "statusFiles (sampleWorld\<lparr>isTTY := True\<rparr>) \<noteq> []"
    by (simp add: sampleWorld_def)
  have h2: "trim (diffCachedNames (sampleWorld\<lparr>isTTY := True\<rparr>)) \<noteq> []"
    by (simp add: sampleWorld_def string_defs)
  have h3: "hasConventionalPrefix '' feat(core)!: add login''"
    by (simp add: string_defs pattern_defs)
  have h4: "isRecognizedCommitType (map_option trim (Some ''fix''))"
    by (simp add: isRecognizedCommitType_def COMMIT_TYPES_def string_defs)
  have t: "trim '' feat(core)!: add login'' = ''feat(core)!: add login''"
    by (simp add: string_defs)
  show ?thesis
    using h1 h2 h3 h4 t
      C1_prefixed_message_kept [of "sampleWorld\<lparr>isTTY := True\<rparr>"
        "\<lparr>commitMessage = Some '' feat(core)!: add login'', commitType = Some ''fix'',
          cwd = None\<rparr>" "'' feat(core)!: add login''"]
    by simp
qed

section \<open>Commit Preparer: composing the message\<close>

text \<open>
  A non-empty scope free of white space and parentheses is one the scope prompt accepts
  and returns as it is.
\<close>

lemma validateScope_accepts:
  assumes "\<not> list_ex isSpace scope"
    and "\<not> list_ex (\<lambda>c. c = CHR ''('' \<or> c = CHR '')'') scope"
  shows "validateScope scope = None \<and> trim scope = scope"
  using assms by (simp add: validateScope_def no_space_trim Let_def)

lemma finalMessage_composed:
  assumes known: "isRecognizedCommitType (Some t)"
    and plain: "\<not> hasConventionalPrefix s"
  shows "(scope \<noteq> [] \<and> \<not> list_ex isSpace scope
            \<and> \<not> list_ex (\<lambda>c. c = CHR ''('' \<or> c = CHR '')'') scope
          \<longrightarrow> finalMessage (trim s) (Some t) scope = t @ ''('' @ scope @ ''): '' @ trim s)
       \<and> finalMessage (trim s) (Some t) [] = t @ '': '' @ trim s"
proof -
  have t: "t \<noteq> []" using known by (auto simp: isRecognizedCommitType_def split: if_splits)
  have p: "\<not> hasConventionalPrefix (trim s)" using plain by (simp add: hasConventionalPrefix_trim)
  show ?thesis using t p by (simp add: finalMessage_def trim_idem)
qed

lemma checkCommitType_absent: "\<not> truthy ct \<Longrightarrow> checkCommitType ct = ret None"
  by (simp add: checkCommitType_def)

lemma checkCommitType_known:
  assumes "map_option trim ct = Some t" and "isRecognizedCommitType (Some t)"
  shows "checkCommitType ct = ret (Some t)"
proof -
  obtain t0 where t0: "ct = Some t0" "trim t0 = t" using assms(1) by (cases ct) auto
  have "t \<noteq> []" using assms(2) by (auto simp: isRecognizedCommitType_def split: if_splits)
  then have "t0 \<noteq> []" using t0 trim_nonempty_arg by blast
  then show ?thesis using t0 assms(2) by (simp add: checkCommitType_def)
qed

text \<open>
  When a supplied type is, after trimming, not one of the recognized types, the run fails
  with the unknown-commit-type error once it has staged and read the staged diff, whatever
  the message and the mode; nothing is committed.
\<close>

lemma commitIfDirty_unknown_type:
  assumes dirty: "statusFiles w \<noteq> []"
    and staged: "trim (diffCachedNames w) \<noteq> []"
    and ty: "commitType options = Some t0" "t0 \<noteq> []"
      "\<not> isRecognizedCommitType (Some (trim t0))"
  shows "commitIfDirty w options =
     (Inl (UnknownCommitType
             (''unknown commit type: '' @ trim t0 @ '' (allowed: ''
                @ allowedCommitTypesText @ '')'')),
      [GitStatus, GitAdd [''-A''], GitDiff [''--cached'', ''--name-only'']])"
proof -
  have ct: "checkCommitType (commitType options) =
      throw (UnknownCommitType
             (''unknown commit type: '' @ trim t0 @ '' (allowed: ''
                @ allowedCommitTypesText @ '')''))"
    using ty by (simp add: checkCommitType_def)
  show ?thesis using dirty staged
    by (simp add: commitIfDirty_def ct Let_def throw_def)
qed

text \<open>The scope prompt: what it returns and what it asks, on each of its paths.\<close>

lemma promptCommitScope_eq:
  assumes listed: "listed = (case loadCicdConfigScopes w dir of
                               Some ss \<Rightarrow> ss \<noteq> [] | None \<Rightarrow> False)"
    and picked: "picked = (listed \<and> scopeChoice w \<noteq> ''__custom__'')"
  shows "promptCommitScope w dir =
     (Inr (if picked then scopeChoice w else trim (scopeInput w)),
      [LoadCicdConfigScopes dir]
        @ (if listed then [Prompt ''Select commit scope (optional):''] else [])
        @ (if picked then [] else [Prompt ''Enter commit scope (optional):'']))"
  using assms
  by (cases "loadCicdConfigScopes w dir")
     (simp_all add: promptCommitScope_def ret_def)

text \<open>
  C2: for every triple of a recognized type \<open>t\<close>, a non-empty subject without a
  conventional prefix and a scope, the Commit Preparer commits exactly
  \<open>t(scope): subject\<close> when the scope is non-empty and exactly \<open>t: subject\<close> when it is
  empty. The triple is what \<open>commitIfDirty\<close> holds when it composes, on a dirty tree with
  a non-empty staged diff: the subject is the trimmed message, supplied or typed at the
  prompt; the type is the trimmed \<open>--type\<close> option or the one picked at the prompt; the
  scope is empty when a message was supplied, and otherwise (interactive runs only) the
  answer of the scope prompt, picked from the list of the repository or typed and then
  trimmed. The prompt accepts typed scopes free of white space and parentheses only
  (\<open>validateScope_accepts\<close>); the composition is the same for every scope.
\<close>

theorem C2_composed_message:
  assumes dirty: "statusFiles w \<noteq> []"
    and staged: "trim (diffCachedNames w) \<noteq> []"
    and known: "isRecognizedCommitType (Some t)"
    and plain: "\<not> hasConventionalPrefix subject"
    and nonblank: "subject \<noteq> []"
    and dir: "dir = (case cwd options of Some d \<Rightarrow> d | None \<Rightarrow> processCwd w)"
    and listed: "listed = (case loadCicdConfigScopes w dir of
                               Some ss \<Rightarrow> ss \<noteq> [] | None \<Rightarrow> False)"
    and picked: "picked = (listed \<and> scopeChoice w \<noteq> ''__custom__'')"
    and scope: "scope = (if picked then scopeChoice w else trim (scopeInput w))"
    and asked: "asked = [LoadCicdConfigScopes dir]
                  @ (if listed then [Prompt ''Select commit scope (optional):''] else [])
                  @ (if picked then [] else [Prompt ''Enter commit scope (optional):''])"
    and composed: "composed = (if scope = [] then t @ '': '' @ subject
                               else t @ ''('' @ scope @ ''): '' @ subject)"
  shows "(commitMessage options = Some m \<and> trim m = subject
            \<and> map_option trim (commitType options) = Some t \<longrightarrow>
          commitIfDirty w options =
            (Inr (),
             [GitStatus, GitAdd [''-A''], GitDiff [''--cached'', ''--name-only''],
              GitCommit (t @ '': '' @ subject)]))
       \<and> (isTTY w \<and> commitMessage options = Some m \<and> trim m = subject
            \<and> \<not> truthy (commitType options) \<and> typeAnswer w = t \<longrightarrow>
          commitIfDirty w options =
            (Inr (),
             [GitStatus, GitAdd [''-A''], GitDiff [''--cached'', ''--name-only''],
              Prompt ''Select commit type (prefix):'',
              GitCommit (t @ '': '' @ subject)]))
       \<and> (isTTY w \<and> \<not> truthy (commitMessage options) \<and> trim (subjectAnswer w) = subject
            \<and> map_option trim (commitType options) = Some t \<longrightarrow>
          commitIfDirty w options =
            (Inr (),
             [GitStatus, GitAdd [''-A''], GitDiff [''--cached'', ''--name-only''],
              Prompt ''Enter commit subject (without prefix):'']
               @ asked @ [GitCommit composed]))
       \<and> (isTTY w \<and> \<not> truthy (commitMessage options) \<and> trim (subjectAnswer w) = subject
            \<and> \<not> truthy (commitType options) \<and> typeAnswer w = t \<longrightarrow>
          commitIfDirty w options =
            (Inr (),
             [GitStatus, GitAdd [''-A''], GitDiff [''--cached'', ''--name-only''],
              Prompt ''Enter commit subject (without prefix):'',
              Prompt ''Select commit type (prefix):'']
               @ asked @ [GitCommit composed]))"
proof -
  have t: "t \<noteq> []" using known by (auto simp: isRecognizedCommitType_def split: if_splits)
  have sc: "promptCommitScope w dir = (Inr scope, asked)"
    using promptCommitScope_eq [OF listed picked] scope asked by simp
  have fm: "finalMessage subject (Some t) scope = composed"
    "finalMessage subject (Some t) [] = t @ '': '' @ subject"
    if "trim subject = subject"
    using t plain that by (simp_all add: finalMessage_def composed)
  have c1: "commitMessage options = Some m \<and> trim m = subject
            \<and> map_option trim (commitType options) = Some t \<longrightarrow>
          commitIfDirty w options =
            (Inr (),
             [GitStatus, GitAdd [''-A''], GitDiff [''--cached'', ''--name-only''],
              GitCommit (t @ '': '' @ subject)])"
  proof
    assume a: "commitMessage options = Some m \<and> trim m = subject
            \<and> map_option trim (commitType options) = Some t"
    then have ct: "checkCommitType (commitType options) = ret (Some t)"
      using known by (simp add: checkCommitType_known)
    have m: "m \<noteq> []" using a nonblank trim_nonempty_arg by blast
    have "trim (trim m) = trim m" by (rule trim_idem)
    then have ts: "trim subject = subject" using a by simp
    show "commitIfDirty w options =
            (Inr (),
             [GitStatus, GitAdd [''-A''], GitDiff [''--cached'', ''--name-only''],
              GitCommit (t @ '': '' @ subject)])"
      using a dirty staged t m nonblank plain
      by (simp add: commitIfDirty_def ct completeMessageAndType_def Let_def fm [OF ts])
  qed
  have c2: "isTTY w \<and> commitMessage options = Some m \<and> trim m = subject
            \<and> \<not> truthy (commitType options) \<and> typeAnswer w = t \<longrightarrow>
          commitIfDirty w options =
            (Inr (),
             [GitStatus, GitAdd [''-A''], GitDiff [''--cached'', ''--name-only''],
              Prompt ''Select commit type (prefix):'',
              GitCommit (t @ '': '' @ subject)])"
  proof
    assume a: "isTTY w \<and> commitMessage options = Some m \<and> trim m = subject
            \<and> \<not> truthy (commitType options) \<and> typeAnswer w = t"
    then have ct: "checkCommitType (commitType options) = ret None"
      by (simp add: checkCommitType_absent)
    have m: "m \<noteq> []" using a nonblank trim_nonempty_arg by blast
    have "trim (trim m) = trim m" by (rule trim_idem)
    then have ts: "trim subject = subject" using a by simp
    show "commitIfDirty w options =
            (Inr (),
             [GitStatus, GitAdd [''-A''], GitDiff [''--cached'', ''--name-only''],
              Prompt ''Select commit type (prefix):'',
              GitCommit (t @ '': '' @ subject)])"
      using a dirty staged t m nonblank plain
      by (simp add: commitIfDirty_def ct completeMessageAndType_def promptCommitType_def
          Let_def fm [OF ts])
  qed
  have c3: "isTTY w \<and> \<not> truthy (commitMessage options) \<and> trim (subjectAnswer w) = subject
            \<and> map_option trim (commitType options) = Some t \<longrightarrow>
          commitIfDirty w options =
            (Inr (),
             [GitStatus, GitAdd [''-A''], GitDiff [''--cached'', ''--name-only''],
              Prompt ''Enter commit subject (without prefix):'']
               @ asked @ [GitCommit composed])"
  proof
    assume a: "isTTY w \<and> \<not> truthy (commitMessage options)
            \<and> trim (subjectAnswer w) = subject
            \<and> map_option trim (commitType options) = Some t"
    then have ct: "checkCommitType (commitType options) = ret (Some t)"
      using known by (simp add: checkCommitType_known)
    have nm: "\<not> truthy (map_option trim (commitMessage options))"
      using a by (cases "commitMessage options") (auto simp: trim_def)
    have "trim (trim (subjectAnswer w)) = trim (subjectAnswer w)" by (rule trim_idem)
    then have ts: "trim subject = subject" using a by simp
    show "commitIfDirty w options =
            (Inr (),
             [GitStatus, GitAdd [''-A''], GitDiff [''--cached'', ''--name-only''],
              Prompt ''Enter commit subject (without prefix):'']
               @ asked @ [GitCommit composed])"
      using a dirty staged t nonblank plain nm
      by (simp add: commitIfDirty_def ct completeMessageAndType_def promptCommitSubject_def
          Let_def fm [OF ts] sc dir [symmetric])
  qed
  have c4: "isTTY w \<and> \<not> truthy (commitMessage options) \<and> trim (subjectAnswer w) = subject
            \<and> \<not> truthy (commitType options) \<and> typeAnswer w = t \<longrightarrow>
          commitIfDirty w options =
            (Inr (),
             [GitStatus, GitAdd [''-A''], GitDiff [''--cached'', ''--name-only''],
              Prompt ''Enter commit subject (without prefix):'',
              Prompt ''Select commit type (prefix):'']
               @ asked @ [GitCommit composed])"
  proof
    assume a: "isTTY w \<and> \<not> truthy (commitMessage options)
            \<and> trim (subjectAnswer w) = subject
            \<and> \<not> truthy (commitType options) \<and> typeAnswer w = t"
    then have ct: "checkCommitType (commitType options) = ret None"
      by (simp add: checkCommitType_absent)
    have nm: "\<not> truthy (map_option trim (commitMessage options))"
      using a by (cases "commitMessage options") (auto simp: trim_def)
    have "trim (trim (subjectAnswer w)) = trim (subjectAnswer w)" by (rule trim_idem)
    then have ts: "trim subject = subject" using a by simp
    show "commitIfDirty w options =
            (Inr (),
             [GitStatus, GitAdd [''-A''], GitDiff [''--cached'', ''--name-only''],
              Prompt ''Enter commit subject (without prefix):'',
              Prompt ''Select commit type (prefix):'']
               @ asked @ [GitCommit composed])"
      using a dirty staged t nonblank plain nm
      by (simp add: commitIfDirty_def ct completeMessageAndType_def promptCommitSubject_def
          promptCommitType_def Let_def fm [OF ts] sc dir [symmetric])
  qed
  show ?thesis using c1 c2 c3 c4 by blast
qed

theorem C2_composed_message_witness:
  "isRecognizedCommitType (Some ''feat'') \<and> isRecognizedCommitType (Some ''fix'')
   \<and> \<not> hasConventionalPrefix ''add login''
   \<and> commitIfDirty sampleWorld
        \<lparr>commitMessage = Some '' add login'', commitType = Some ''feat'', cwd = None\<rparr>
      = (Inr (),
         [GitStatus, GitAdd [''-A''], GitDiff [''--cached'', ''--name-only''],
          GitCommit ''feat: add login''])
   \<and> commitIfDirty (sampleWorld\<lparr>isTTY := True\<rparr>)
        \<lparr>commitMessage = Some '' add login'', commitType = None, cwd = None\<rparr>
      = (Inr (),
         [GitStatus, GitAdd [''-A''], GitDiff [''--cached'', ''--name-only''],
          Prompt ''Select commit type (prefix):'',
          GitCommit ''feat: add login''])
   \<and> commitIfDirty (sampleWorld\<lparr>isTTY := True\<rparr>)
        \<lparr>commitMessage = None, commitType = Some ''fix'', cwd = None\<rparr>
      = (Inr (),
         [GitStatus, GitAdd [''-A''], GitDiff [''--cached'', ''--name-only''],
          Prompt ''Enter commit subject (without prefix):'',
          LoadCicdConfigScopes ''/repo'',
          Prompt ''Enter commit scope (optional):'',
          GitCommit ''fix(core): add login''])
   \<and> commitIfDirty
        (sampleWorld\<lparr>isTTY := True,
                      loadCicdConfigScopes := (\<lambda>_. Some [''core'', ''api''])\<rparr>)
        \<lparr>commitMessage = None, commitType = None, cwd = None\<rparr>
      = (Inr (),
         [GitStatus, GitAdd [''-A''], GitDiff [''--cached'', ''--name-only''],
          Prompt ''Enter commit subject (without prefix):'',
          Prompt ''Select commit type (prefix):'',
          LoadCicdConfigScopes ''/repo'',
          Prompt ''Select commit scope (optional):'',
          GitCommit ''feat: add login''])"
proof -
  let ?w2 = "sampleWorld\<lparr>isTTY := True\<rparr>"
  let ?w4 = "sampleWorld\<lparr>isTTY := True,
                      loadCicdConfigScopes := (\<lambda>_. Some [''core'', ''api''])\<rparr>"
  let ?o1 = "\<lparr>commitMessage = Some '' add login'', commitType = Some ''feat'', cwd = None\<rparr>"
  let ?o2 = "\<lparr>commitMessage = Some '' add login'', commitType = None, cwd = None\<rparr>"
  let ?o3 = "\<lparr>commitMessage = None, commitType = Some ''fix'', cwd = None\<rparr>"
  let ?o4 = "\<lparr>commitMessage = None, commitType = None, cwd = None\<rparr>"
  have k: "isRecognizedCommitType (Some ''feat'')" "isRecognizedCommitType (Some ''fix'')"
    by (simp_all add: isRecognizedCommitType_def COMMIT_TYPES_def)
  have p: "\<not> hasConventionalPrefix ''add login''"
    by (simp add: string_defs pattern_defs)
  have n: "''add login'' \<noteq> []" by simp
  have d: "statusFiles sampleWorld \<noteq> []" "statusFiles ?w2 \<noteq> []" "statusFiles ?w4 \<noteq> []"
    by (simp_all add: sampleWorld_def)
  have s: "trim (diffCachedNames sampleWorld) \<noteq> []" "trim (diffCachedNames ?w2) \<noteq> []"
    "trim (diffCachedNames ?w4) \<noteq> []"
    by (simp_all add: sampleWorld_def trim_def isSpace_def)
  have t: "trim '' add login'' = ''add login''" "trim ''feat'' = ''feat''"
    "trim ''fix'' = ''fix''" "trim ''core'' = ''core''" "trim ''add login'' = ''add login''"
    by (simp_all add: trim_def isSpace_def)
  have a: "subjectAnswer sampleWorld = ''add login''" "typeAnswer sampleWorld = ''feat''"
    "scopeInput sampleWorld = ''core''" "scopeChoice sampleWorld = []"
    "processCwd sampleWorld = ''/repo''" "loadCicdConfigScopes sampleWorld = (\<lambda>_. None)"
    "\<not> isTTY sampleWorld"
    by (simp_all add: sampleWorld_def)
  have r1: "commitIfDirty sampleWorld ?o1
      = (Inr (),
         [GitStatus, GitAdd [''-A''], GitDiff [''--cached'', ''--name-only''],
          GitCommit (''feat'' @ '': '' @ ''add login'')])"
    using C2_composed_message [where w = sampleWorld and options = ?o1 and t = "''feat''"
        and subject = "''add login''" and m = "'' add login''",
        OF d(1) s(1) k(1) p n refl refl refl refl refl refl, THEN conjunct1]
    by (simp add: t)
  have r2: "commitIfDirty ?w2 ?o2
      = (Inr (),
         [GitStatus, GitAdd [''-A''], GitDiff [''--cached'', ''--name-only''],
          Prompt ''Select commit type (prefix):'',
          GitCommit (''feat'' @ '': '' @ ''add login'')])"
    using C2_composed_message [where w = ?w2 and options = ?o2 and t = "''feat''"
        and subject = "''add login''" and m = "'' add login''",
        OF d(2) s(2) k(1) p n refl refl refl refl refl refl, THEN conjunct2, THEN conjunct1]
    by (simp add: t a)
  have r3: "commitIfDirty ?w2 ?o3
      = (Inr (),
         [GitStatus, GitAdd [''-A''], GitDiff [''--cached'', ''--name-only''],
          Prompt ''Enter commit subject (without prefix):'',
          LoadCicdConfigScopes ''/repo'',
          Prompt ''Enter commit scope (optional):'',
          GitCommit (''fix'' @ ''('' @ ''core'' @ ''): '' @ ''add login'')])"
    using C2_composed_message [where w = ?w2 and options = ?o3 and t = "''fix''"
        and subject = "''add login''",
        OF d(2) s(2) k(2) p n refl refl refl refl refl refl,
        THEN conjunct2, THEN conjunct2, THEN conjunct1]
    by (simp add: t a)
  have r4: "commitIfDirty ?w4 ?o4
      = (Inr (),
         [GitStatus, GitAdd [''-A''], GitDiff [''--cached'', ''--name-only''],
          Prompt ''Enter commit subject (without prefix):'',
          Prompt ''Select commit type (prefix):'',
          LoadCicdConfigScopes ''/repo'',
          Prompt ''Select commit scope (optional):'',
          GitCommit (''feat'' @ '': '' @ ''add login'')])"
    using C2_composed_message [where w = ?w4 and options = ?o4 and t = "''feat''"
        and subject = "''add login''",
        OF d(3) s(3) k(1) p n refl refl refl refl refl refl,
        THEN conjunct2, THEN conjunct2, THEN conjunct2]
    by (simp add: t a)
  show ?thesis using k p by (simp add: r1 r2 r3 r4)
qed

section \<open>Commit Preparer: non-interactive runs\<close>

text \<open>
  C7, as stated: every non-interactive run on a dirty tree with a non-empty staged diff and
  no supplied message fails with the missing-commit-metadata error.

  The code does otherwise when a commit type that is not recognized comes with the missing
  message: the type is checked first, and the run fails with the unknown-commit-type error.
\<close>

theorem C7_counterexample:
  "\<not> isTTY sampleWorld
   \<and> statusFiles sampleWorld \<noteq> []
   \<and> trim (diffCachedNames sampleWorld) \<noteq> []
   \<and> commitIfDirty sampleWorld
        \<lparr>commitMessage = None, commitType = Some ''bogus'', cwd = None\<rparr>
      = (Inl (UnknownCommitType
            (''unknown commit type: bogus (allowed: feat, fix, to, docs, style, refactor, ''
               @ ''perf, test, chore, revert, merge, sync)'')),
         [GitStatus, GitAdd [''-A''], GitDiff [''--cached'', ''--name-only'']])"
proof -
  have t1: "trim ''bogus'' = ''bogus''" "trim (''a.txt'' @ [CHR 0x0A]) = ''a.txt''"
    by (simp_all add: string_defs)
  have bogus: "\<not> isRecognizedCommitType (Some ''bogus'')"
    by (simp add: isRecognizedCommitType_def COMMIT_TYPES_def)
  show ?thesis
    using t1 bogus
    by (simp add: commitIfDirty_def checkCommitType_def allowedCommitTypesText_eq
        sampleWorld_def Let_def)
qed

text \<open>
  C7, amended: in a non-interactive run on a dirty tree with a non-empty staged diff, where
  the supplied commit type, if any, is a recognized one: with no message supplied (or a
  blank one) the run fails with the missing-commit-metadata error that asks for
  \<open>--message\<close>; with an unprefixed message and no commit type it fails with the
  missing-commit-metadata error that asks for \<open>--type\<close>. In both cases the run has
  inspected the status, staged and read the staged diff, and has created no commit.
\<close>

theorem C7_noninteractive_missing_metadata:
  assumes batch: "\<not> isTTY w"
    and dirty: "statusFiles w \<noteq> []"
    and staged: "trim (diffCachedNames w) \<noteq> []"
    and ty: "\<not> truthy (commitType options)
             \<or> isRecognizedCommitType (map_option trim (commitType options))"
  shows "(\<not> truthy (map_option trim (commitMessage options)) \<longrightarrow>
            commitIfDirty w options =
              (Inl (MissingCommitMetadata
                     ''working tree has changes; pass --message in non-interactive mode''),
               [GitStatus, GitAdd [''-A''], GitDiff [''--cached'', ''--name-only'']]))
       \<and> (truthy (map_option trim (commitMessage options))
            \<and> \<not> hasConventionalPrefix (case commitMessage options of Some m \<Rightarrow> m | None \<Rightarrow> [])
            \<and> \<not> truthy (commitType options) \<longrightarrow>
            commitIfDirty w options =
              (Inl (MissingCommitMetadata
                     (''commit message has no type prefix; pass --type or use an ''
                        @ ''already-prefixed message like '' @ [CHR 0x27] @ ''feat: ...''
                        @ [CHR 0x27])),
               [GitStatus, GitAdd [''-A''], GitDiff [''--cached'', ''--name-only'']]))"
proof -
  define ty' where "ty' = (if truthy (commitType options)
      then map_option trim (commitType options) else None)"
  have ct: "checkCommitType (commitType options) = ret ty'"
  proof (cases "truthy (commitType options)")
    case False
    then show ?thesis by (simp add: checkCommitType_def ty'_def)
  next
    case True
    then obtain t where t: "commitType options = Some t" "t \<noteq> []"
      by (cases "commitType options") auto
    with ty have known: "isRecognizedCommitType (Some (trim t))" by simp
    then show ?thesis using t by (simp add: checkCommitType_def ty'_def)
  qed
  have tr: "truthy ty' = truthy (commitType options)"
  proof (cases "truthy (commitType options)")
    case False
    then show ?thesis by (simp add: ty'_def)
  next
    case True
    then obtain t where t: "commitType options = Some t" "t \<noteq> []"
      by (cases "commitType options") auto
    with ty have "isRecognizedCommitType (Some (trim t))" by simp
    then have "trim t \<noteq> []" by (auto simp: isRecognizedCommitType_def split: if_splits)
    then show ?thesis using t by (simp add: ty'_def)
  qed
  show ?thesis using batch dirty staged tr
    by (cases "commitMessage options")
       (simp_all add: commitIfDirty_def ct completeMessageAndType_def Let_def
          hasConventionalPrefix_trim throw_def)
qed

theorem C7_noninteractive_missing_metadata_witness:
  "\<not> isTTY sampleWorld
   \<and> statusFiles sampleWorld \<noteq> []
   \<and> trim (diffCachedNames sampleWorld) \<noteq> []
   \<and> isRecognizedCommitType (map_option trim (Some ''fix''))
   \<and> commitIfDirty sampleWorld
        \<lparr>commitMessage = None, commitType = Some ''fix'', cwd = None\<rparr>
      = (Inl (MissingCommitMetadata
                ''working tree has changes; pass --message in non-interactive mode''),
         [GitStatus, GitAdd [''-A''], GitDiff [''--cached'', ''--name-only'']])
   \<and> \<not> hasConventionalPrefix ''add login''
   \<and> commitIfDirty sampleWorld
        \<lparr>commitMessage = Some ''add login'', commitType = None, cwd = None\<rparr>
      = (Inl (MissingCommitMetadata
                (''commit message has no type prefix; pass --type or use an ''
                   @ ''already-prefixed message like '' @ [CHR 0x27] @ ''feat: ...''
                   @ [CHR 0x27])),
         [GitStatus, GitAdd [''-A''], GitDiff [''--cached'', ''--name-only'']])"
proof -
  have h1: "\<not> isTTY sampleWorld" by (simp add: sampleWorld_def)
  have h2: "statusFiles sampleWorld \<noteq> []" by (simp add: sampleWorld_def)
  have h3: "trim (diffCachedNames sampleWorld) \<noteq> []"
    by (simp add: sampleWorld_def string_defs)
  have h4: "isRecognizedCommitType (map_option trim (Some ''fix''))"
    by (simp add: isRecognizedCommitType_def COMMIT_TYPES_def string_defs)
  have h5: "\<not> hasConventionalPrefix ''add login''"
    by (simp add: string_defs pattern_defs)
  have t: "trim ''add login'' = ''add login''" by (simp add: string_defs)
  show ?thesis
    using h1 h2 h3 h4 h5 t
      C7_noninteractive_missing_metadata [OF h1 h2 h3,
        of "\<lparr>commitMessage = None, commitType = Some ''fix'', cwd = None\<rparr>"]
      C7_noninteractive_missing_metadata [OF h1 h2 h3,
        of "\<lparr>commitMessage = Some ''add login'', commitType = None, cwd = None\<rparr>"]
    by simp
qed

section \<open>Remote Resolver\<close>

lemma getUpstreamRef_eq:
  "getUpstreamRef w =
     (Inr (case revParseUpstream w of
             None \<Rightarrow> None
           | Some out \<Rightarrow> if trim out = [] then None else Some (trim out)),
      [GitRaw [''rev-parse'', ''--abbrev-ref'', ''--symbolic-full-name'', ''@'' @ ''{u}'']])"
  by (simp add: getUpstreamRef_def Let_def ret_def split: option.splits)

lemma getRemoteFromUpstream_empty: "getRemoteFromUpstream [] = None"
  by (simp add: getRemoteFromUpstream_def indexOf_def)

lemma getRemoteFromUpstream_nonempty: "getRemoteFromUpstream u = Some r \<Longrightarrow> r \<noteq> []"
  by (cases u) (auto simp: getRemoteFromUpstream_def indexOf_def Let_def split: if_splits)

lemma getPreferredRemote_eq:
  assumes up: "(case revParseUpstream w of
                  None \<Rightarrow> None | Some out \<Rightarrow> getRemoteFromUpstream (trim out)) = up"
  shows "getPreferredRemote w =
     (case up of
        Some r \<Rightarrow>
          (Inr r, [GitRaw [''rev-parse'', ''--abbrev-ref'', ''--symbolic-full-name'', ''@'' @ ''{u}'']])
      | None \<Rightarrow>
          (if ''origin'' \<in> set (remoteNames w) then Inr ''origin''
           else (case remoteNames w of
                   first # _ \<Rightarrow> Inr first
                 | [] \<Rightarrow> Inl (NoRemoteConfigured
                           (''no git remotes found (expected '' @ [CHR 0x27] @ ''origin''
                              @ [CHR 0x27] @ '')''))),
           [GitRaw [''rev-parse'', ''--abbrev-ref'', ''--symbolic-full-name'', ''@'' @ ''{u}''],
            GitGetRemotes]))"
proof (cases up)
  case None
  then have "truthy (case revParseUpstream w of
               None \<Rightarrow> None
             | Some out \<Rightarrow> if trim out = [] then None else Some (trim out)) \<Longrightarrow>
       getRemoteFromUpstream
         (case (case revParseUpstream w of
                  None \<Rightarrow> None
                | Some out \<Rightarrow> if trim out = [] then None else Some (trim out)) of
            Some u \<Rightarrow> u | None \<Rightarrow> []) = None"
    using up by (auto split: option.splits if_splits)
  then show ?thesis using None
    by (auto simp add: getPreferredRemote_def getUpstreamRef_eq Let_def throw_def ret_def
        split: list.splits)
next
  case (Some r)
  then obtain out where out: "revParseUpstream w = Some out"
      "getRemoteFromUpstream (trim out) = Some r"
    using up by (auto split: option.splits)
  then have "trim out \<noteq> []" using getRemoteFromUpstream_empty by auto
  moreover have "r \<noteq> []" using out(2) by (rule getRemoteFromUpstream_nonempty)
  ultimately show ?thesis using Some out
    by (simp add: getPreferredRemote_def getUpstreamRef_eq Let_def)
qed

text \<open>
  C3: the preferred remote is the remote of the upstream ref of the current branch, else
  \<open>origin\<close>, else the first remote listed, and with zero remotes the operation fails
  with the no-remote-configured error. The comment of \<open>getPreferredRemote\<close> says the
  same: it returns a remote name and throws when the repository has no remote.

  The code breaks this when the current branch tracks a local branch whose name holds a
  slash, say \<open>feature/x\<close>, for which git prints the upstream ref \<open>feature/x\<close>:
  \<open>getRemoteFromUpstream\<close> takes the text before the first slash for a remote name
  without looking at the remotes. In a repository with zero remotes the operation then
  returns \<open>feature\<close>, which names no remote, instead of failing; with the single remote
  \<open>origin\<close> it returns \<open>feature\<close> as well, instead of \<open>origin\<close>.
\<close>

theorem C3_local_upstream_taken_for_remote:
  "remoteNames (sampleWorld\<lparr>revParseUpstream := Some ''feature/x'', remoteNames := []\<rparr>) = []
   \<and> getPreferredRemote (sampleWorld\<lparr>revParseUpstream := Some ''feature/x'', remoteNames := []\<rparr>)
      = (Inr ''feature'',
         [GitRaw [''rev-parse'', ''--abbrev-ref'', ''--symbolic-full-name'', ''@'' @ ''{u}'']])
   \<and> getPreferredRemote
        (sampleWorld\<lparr>revParseUpstream := Some ''feature/x'', remoteNames := [''origin'']\<rparr>)
      = (Inr ''feature'',
         [GitRaw [''rev-parse'', ''--abbrev-ref'', ''--symbolic-full-name'', ''@'' @ ''{u}'']])"
proof -
  have f: "getRemoteFromUpstream (trim ''feature/x'') = Some ''feature''"
    by (simp add: getRemoteFromUpstream_def string_defs)
  have r1: "getPreferredRemote
        (sampleWorld\<lparr>revParseUpstream := Some ''feature/x'', remoteNames := []\<rparr>)
      = (Inr ''feature'',
         [GitRaw [''rev-parse'', ''--abbrev-ref'', ''--symbolic-full-name'', ''@'' @ ''{u}'']])"
    using getPreferredRemote_eq
      [of "sampleWorld\<lparr>revParseUpstream := Some ''feature/x'', remoteNames := []\<rparr>"
          "Some ''feature''"]
    by (simp add: f)
  have r2: "getPreferredRemote
        (sampleWorld\<lparr>revParseUpstream := Some ''feature/x'', remoteNames := [''origin'']\<rparr>)
      = (Inr ''feature'',
         [GitRaw [''rev-parse'', ''--abbrev-ref'', ''--symbolic-full-name'', ''@'' @ ''{u}'']])"
    using getPreferredRemote_eq
      [of "sampleWorld\<lparr>revParseUpstream := Some ''feature/x'', remoteNames := [''origin'']\<rparr>"
          "Some ''feature''"]
    by (simp add: f)
  show ?thesis by (simp add: r1 r2)
qed

section \<open>Repository Inspector: the remote-branch probe\<close>

text \<open>
  C9, as stated: the probe returns true exactly when the listing of remote heads succeeds
  with non-empty output.

  The code does otherwise when the listing succeeds with output that is white space only:
  for the output of a single line feed it returns false.
\<close>

theorem C9_counterexample:
  "lsRemoteHeads (sampleWorld\<lparr>lsRemoteHeads := (\<lambda>_ _. Some [CHR 0x0A])\<rparr>) ''origin'' ''main''
     = Some [CHR 0x0A]
   \<and> [CHR 0x0A] \<noteq> []
   \<and> remoteBranchExists (sampleWorld\<lparr>lsRemoteHeads := (\<lambda>_ _. Some [CHR 0x0A])\<rparr>)
        ''origin'' ''main''
      = (Inr False, [GitRaw [''ls-remote'', ''--heads'', ''origin'', ''main'']])"
  by (simp add: remoteBranchExists_def sampleWorld_def string_defs ret_def)

text \<open>
  C9, amended: the probe lists the remote heads once and always returns a truth value,
  never an error. When the listing fails, for whatever reason, it returns false. It returns
  true exactly when the listing succeeds with output that is non-empty after trimming white
  space.
\<close>

theorem C9_remote_branch_probe:
  "(\<exists>b. remoteBranchExists w remote br
           = (Inr b, [GitRaw [''ls-remote'', ''--heads'', remote, br]]))
   \<and> (lsRemoteHeads w remote br = None
        \<longrightarrow> fst (remoteBranchExists w remote br) = Inr False)
   \<and> (fst (remoteBranchExists w remote br) = Inr True
        \<longleftrightarrow> (\<exists>output. lsRemoteHeads w remote br = Some output \<and> trim output \<noteq> []))"
  by (cases "lsRemoteHeads w remote br") (auto simp add: remoteBranchExists_def ret_def)

theorem C9_remote_branch_probe_witness:
  "lsRemoteHeads sampleWorld ''origin'' ''main'' = None
   \<and> fst (remoteBranchExists sampleWorld ''origin'' ''main'') = Inr False
   \<and> fst (remoteBranchExists
             (sampleWorld\<lparr>lsRemoteHeads :=
                (\<lambda>_ _. Some (''3f2a'' @ [CHR 0x09] @ ''refs/heads/main'' @ [CHR 0x0A]))\<rparr>)
             ''origin'' ''main'') = Inr True"
proof -
  have h: "lsRemoteHeads sampleWorld ''origin'' ''main'' = None"
    by (simp add: sampleWorld_def)
  have t: "trim (''3f2a'' @ [CHR 0x09] @ ''refs/heads/main'' @ [CHR 0x0A]) \<noteq> []"
    by (simp add: string_defs)
  show ?thesis
    using h t
      C9_remote_branch_probe [of sampleWorld "''origin''" "''main''"]
      C9_remote_branch_probe
        [of "sampleWorld\<lparr>lsRemoteHeads :=
                (\<lambda>_ _. Some (''3f2a'' @ [CHR 0x09] @ ''refs/heads/main'' @ [CHR 0x0A]))\<rparr>"
            "''origin''" "''main''"]
    by simp
qed

section \<open>Promote to main: the source-branch guard\<close>

text \<open>
  C4: when \<open>toMain\<close> runs inside a git repository on a named branch that equals the
  configured target branch (the trimmed \<open>--branch\<close> option, else \<open>main\<close>), it fails with
  the invalid-source-branch error, and all it has done before is ask whether it is in a
  repository and which branch is current: nothing was staged, committed, pulled or pushed.
\<close>

theorem C4_guard_before_mutation:
  assumes repo: "checkIsRepo w"
    and named: "branchCurrent w \<noteq> []" "branchCurrent w \<noteq> ''HEAD''"
    and same: "branchCurrent w = toMainTarget options"
  shows "toMain w options =
           (Inl (InvalidSourceBranch
                   (''cannot run to-main on '' @ [CHR 0x27] @ toMainTarget options
                      @ [CHR 0x27] @ '' branch; checkout another branch first'')),
            [GitCheckIsRepo, GitBranch])
       \<and> filter mutates (snd (toMain w options)) = []"
  using assms by (simp add: toMain_def Let_def throw_def)

theorem C4_guard_before_mutation_witness:
  "checkIsRepo (sampleWorld\<lparr>branchCurrent := ''main''\<rparr>)
   \<and> branchCurrent (sampleWorld\<lparr>branchCurrent := ''main''\<rparr>) = ''main''
   \<and> toMainTarget \<lparr>commitMessage = Some ''feat: x'', commitType = None, cwd = None,
                    branch = None\<rparr> = ''main''
   \<and> toMain (sampleWorld\<lparr>branchCurrent := ''main''\<rparr>)
        \<lparr>commitMessage = Some ''feat: x'', commitType = None, cwd = None, branch = None\<rparr>
      = (Inl (InvalidSourceBranch
                (''cannot run to-main on '' @ [CHR 0x27] @ ''main'' @ [CHR 0x27]
                   @ '' branch; checkout another branch first'')),
         [GitCheckIsRepo, GitBranch])"
proof -
  have h1: "checkIsRepo (sampleWorld\<lparr>branchCurrent := ''main''\<rparr>)"
    by (simp add: sampleWorld_def)
  have h2: "branchCurrent (sampleWorld\<lparr>branchCurrent := ''main''\<rparr>) \<noteq> []"
    "branchCurrent (sampleWorld\<lparr>branchCurrent := ''main''\<rparr>) \<noteq> ''HEAD''"
    by simp_all
  have h3: "toMainTarget \<lparr>commitMessage = Some ''feat: x'', commitType = None, cwd = None,
                    branch = None\<rparr> = ''main''"
    by (simp add: toMainTarget_def)
  have h4: "branchCurrent (sampleWorld\<lparr>branchCurrent := ''main''\<rparr>)
      = toMainTarget \<lparr>commitMessage = Some ''feat: x'', commitType = None, cwd = None,
                    branch = None\<rparr>"
    using h3 by simp
  show ?thesis
    using h1 h3 C4_guard_before_mutation [OF h1 h2 h4] by simp
qed

section \<open>Parsing the remote address\<close>

lemma pathParts_widget: "pathParts ''acme/widget.git'' = [''acme'', ''widget'']"
  by code_simp





section \<open>Request creation: the manual link and the fallback between tools\<close>

lemma startsWith_append: "startsWith (p @ b) p"
  by (induction p) auto

lemma includesStr_append: "includesStr (a @ p @ b) p"
proof (induction a)
  case Nil
  show ?case
  proof (cases "p @ b")
    case Nil
    then show ?thesis by simp
  next
    case (Cons c cs)
    have "startsWith (p @ b) p" by (rule startsWith_append)
    then show ?thesis using Cons by simp
  qed
next
  case (Cons c a)
  then show ?case by simp
qed

lemma hint_None:
  "hint None =
     ''no supported MR/PR tool found (install one):'' @ [CHR 0x0A]
       @ ''- GitLab: glab (https://github.com/profclems/glab)'' @ [CHR 0x0A]
       @ ''- GitHub: gh (https://github.com/cli/cli)''"
  by (simp add: hint_def hintLines_def)

lemma hint_Some:
  "url \<noteq> [] \<Longrightarrow> hint (Some url) = hint None @ [CHR 0x0A] @ ''manual link: '' @ url"
  by (simp add: hint_def hintLines_def)

lemma hint_None_no_link: "\<not> includesStr (hint None) ''manual link: ''"
  unfolding hint_None by code_simp

lemma hint_Some_link: "url \<noteq> [] \<Longrightarrow> includesStr (hint (Some url)) ''manual link: ''"
proof -
  assume "url \<noteq> []"
  then have "hint (Some url) = (hint None @ [CHR 0x0A]) @ ''manual link: '' @ url"
    by (simp add: hint_Some)
  then show ?thesis by (simp only: includesStr_append)
qed

lemma buildCreateMrUrl_nonempty: "buildCreateMrUrl p s t = Some url \<Longrightarrow> url \<noteq> []"
  by (auto simp: buildCreateMrUrl_def Let_def split: if_splits)

lemma buildCreateMrUrl_Some_iff:
  "(\<exists>url. buildCreateMrUrl p s t = Some url) \<longleftrightarrow> provider p \<noteq> unknown"
  by (cases "provider p") (simp_all add: buildCreateMrUrl_def Let_def)

lemma manualUrl_Some_iff:
  "manualUrl options \<noteq> None
     \<longleftrightarrow> (\<exists>p. parsedRemote options = Some p \<and> provider p \<noteq> unknown)"
  using buildCreateMrUrl_Some_iff
  by (cases "parsedRemote options") (auto simp: manualUrl_def)

lemma manualUrl_nonempty: "manualUrl options = Some url \<Longrightarrow> url \<noteq> []"
  by (cases "parsedRemote options") (auto simp: manualUrl_def dest: buildCreateMrUrl_nonempty)

lemma commandExists_eq: "commandExists w tool = (Inr (onPath w tool), [whichCall w tool])"
  by (simp add: commandExists_def onPath_def whichCall_def)

lemma tryTools_none:
  "\<forall>tool \<in> set tools. \<not> onPath w tool
     \<Longrightarrow> tryTools w options tools = (Inr False, map (whichCall w) tools)"
  by (induction tools) (simp_all add: commandExists_eq ret_def)

lemma candidates_cases:
  "candidates parsed = [''glab'', ''gh''] \<or> candidates parsed = [''gh'', ''glab'']"
  by (simp add: candidates_def Let_def)

text \<open>
  C6, as stated: with no provider tool on the path, the failure message holds a manual link
  exactly when the remote address was parsed.

  The code does otherwise for a parsed remote whose host names neither provider:
  \<open>git@bitbucket.org:acme/widget.git\<close> parses, its provider is \<open>unknown\<close>, no web
  address is built for it, and the message ends after the two install hints.
\<close>

theorem C6_counterexample:
  "parseRemoteUrl plainUrl ''git@bitbucket.org:acme/widget.git''
     = Some \<lparr>host = ''bitbucket.org'', ownerPath = ''acme'', repo = ''widget'',
             provider = unknown\<rparr>
   \<and> \<not> onPath sampleWorld ''glab'' \<and> \<not> onPath sampleWorld ''gh''
   \<and> createMergeRequest sampleWorld
        \<lparr>mr_cwd = ''/repo'',
         parsedRemote = Some \<lparr>host = ''bitbucket.org'', ownerPath = ''acme'',
                               repo = ''widget'', provider = unknown\<rparr>,
         sourceBranch = ''feat-x'', targetBranch = ''main''\<rparr>
      = (Inl (NoMergeRequestToolAvailable
                (''no supported MR/PR tool found (install one):'' @ [CHR 0x0A]
                   @ ''- GitLab: glab (https://github.com/profclems/glab)'' @ [CHR 0x0A]
                   @ ''- GitHub: gh (https://github.com/cli/cli)'')),
         [RunCommandCapture ''which'' [''glab''] ''/repo'',
          RunCommandCapture ''which'' [''gh''] ''/repo''])"
proof -
  have t: "trim ''git@bitbucket.org:acme/widget.git'' = ''git@bitbucket.org:acme/widget.git''"
    by (simp add: trim_def isSpace_def)
  have s: "test scpStyle ''git@bitbucket.org:acme/widget.git''"
    by (simp add: pattern_defs)
  have hp: "hostAndPath plainUrl ''git@bitbucket.org:acme/widget.git''
      = Some (''bitbucket.org'', ''acme/widget.git'')"
    by (simp only: hostAndPath_def s if_True Let_def) (simp add: string_defs)
  have a: "parseRemoteUrl plainUrl ''git@bitbucket.org:acme/widget.git''
     = Some \<lparr>host = ''bitbucket.org'', ownerPath = ''acme'', repo = ''widget'',
             provider = unknown\<rparr>"
    by (simp add: parseRemoteUrl_def Let_def t hp pathParts_widget)
  have n: "\<not> onPath sampleWorld ''glab''" "\<not> onPath sampleWorld ''gh''"
    by (simp_all add: onPath_def sampleWorld_def)
  have c: "createMergeRequest sampleWorld
        \<lparr>mr_cwd = ''/repo'',
         parsedRemote = Some \<lparr>host = ''bitbucket.org'', ownerPath = ''acme'',
                               repo = ''widget'', provider = unknown\<rparr>,
         sourceBranch = ''feat-x'', targetBranch = ''main''\<rparr>
      = (Inl (NoMergeRequestToolAvailable (hint None)),
         [whichCall sampleWorld ''glab'', whichCall sampleWorld ''gh''])"
  proof -
    have "tryTools sampleWorld
        \<lparr>mr_cwd = ''/repo'',
         parsedRemote = Some \<lparr>host = ''bitbucket.org'', ownerPath = ''acme'',
                               repo = ''widget'', provider = unknown\<rparr>,
         sourceBranch = ''feat-x'', targetBranch = ''main''\<rparr> [''glab'', ''gh'']
      = (Inr False, map (whichCall sampleWorld) [''glab'', ''gh''])"
      by (rule tryTools_none) (simp add: n)
    then show ?thesis
      by (simp add: createMergeRequest_def candidates_def manualUrl_def buildCreateMrUrl_def
          Let_def throw_def del: tryTools.simps)
  qed
  have w: "whichCall sampleWorld ''glab'' = RunCommandCapture ''which'' [''glab''] ''/repo''"
    "whichCall sampleWorld ''gh'' = RunCommandCapture ''which'' [''gh''] ''/repo''"
    by (simp_all add: whichCall_def sampleWorld_def)
  show ?thesis using a n c w hint_None by simp
qed

text \<open>
  C6, amended: when neither \<open>glab\<close> nor \<open>gh\<close> is on the path, request creation probes
  the two tools in candidate order, runs neither, and fails with the
  no-merge-request-tool error. The message of that error holds the line
  \<open>manual link: url\<close>, with the web address built for the remote, exactly when the remote
  address was parsed and its provider is \<open>github\<close> or \<open>gitlab\<close>; when the address was
  not parsed, or was parsed with provider \<open>unknown\<close>, the message is the install hint
  alone.
\<close>

theorem C6_manual_link:
  assumes none: "\<not> onPath w ''glab''" "\<not> onPath w ''gh''"
  shows "createMergeRequest w options =
           (Inl (NoMergeRequestToolAvailable (hint (manualUrl options))),
            map (whichCall w) (candidates (parsedRemote options)))
       \<and> (includesStr (hint (manualUrl options)) ''manual link: ''
            \<longleftrightarrow> (\<exists>p. parsedRemote options = Some p \<and> provider p \<noteq> unknown))
       \<and> (\<forall>url. manualUrl options = Some url \<longrightarrow>
              hint (manualUrl options) = hint None @ [CHR 0x0A] @ ''manual link: '' @ url)
       \<and> (manualUrl options = None \<longrightarrow> hint (manualUrl options) = hint None)"
proof -
  have "\<forall>tool \<in> set (candidates (parsedRemote options)). \<not> onPath w tool"
    using none candidates_cases [of "parsedRemote options"] by auto
  then have tools: "tryTools w options (candidates (parsedRemote options))
      = (Inr False, map (whichCall w) (candidates (parsedRemote options)))"
    by (rule tryTools_none)
  have run: "createMergeRequest w options =
           (Inl (NoMergeRequestToolAvailable (hint (manualUrl options))),
            map (whichCall w) (candidates (parsedRemote options)))"
    by (simp add: createMergeRequest_def Let_def tools throw_def)
  have link: "includesStr (hint (manualUrl options)) ''manual link: ''
            \<longleftrightarrow> manualUrl options \<noteq> None"
  proof (cases "manualUrl options")
    case None
    then show ?thesis using hint_None_no_link by simp
  next
    case (Some url)
    then have "url \<noteq> []" by (rule manualUrl_nonempty)
    then show ?thesis using Some hint_Some_link by simp
  qed
  have some: "\<forall>url. manualUrl options = Some url \<longrightarrow>
              hint (manualUrl options) = hint None @ [CHR 0x0A] @ ''manual link: '' @ url"
    using manualUrl_nonempty hint_Some by auto
  show ?thesis using run link some manualUrl_Some_iff [of options] by simp
qed

theorem C6_manual_link_witness:
  "\<not> onPath sampleWorld ''glab'' \<and> \<not> onPath sampleWorld ''gh''
   \<and> createMergeRequest sampleWorld
        \<lparr>mr_cwd = ''/repo'',
         parsedRemote = Some \<lparr>host = ''github.com'', ownerPath = ''acme'',
                               repo = ''widget'', provider = github\<rparr>,
         sourceBranch = ''feat/x'', targetBranch = ''main''\<rparr>
      = (Inl (NoMergeRequestToolAvailable
                (hint None @ [CHR 0x0A] @ ''manual link: ''
                   @ ''https://github.com/acme/widget/compare/main...feat%2Fx?expand=1'')),
         [whichCall sampleWorld ''gh'', whichCall sampleWorld ''glab''])
   \<and> createMergeRequest sampleWorld
        \<lparr>mr_cwd = ''/repo'', parsedRemote = None,
         sourceBranch = ''feat/x'', targetBranch = ''main''\<rparr>
      = (Inl (NoMergeRequestToolAvailable (hint None)),
         [whichCall sampleWorld ''glab'', whichCall sampleWorld ''gh''])"
proof -
  have n: "\<not> onPath sampleWorld ''glab''" "\<not> onPath sampleWorld ''gh''"
    by (simp_all add: onPath_def sampleWorld_def)
  have e: "encodeURIComponent ''feat/x'' = ''feat%2Fx''" "encodeURIComponent ''main'' = ''main''"
    by (simp_all add: encodeURIComponent_def encodeChar_def unreserved_def percent_def
        hexDigit_def)
  have u: "manualUrl \<lparr>mr_cwd = ''/repo'',
         parsedRemote = Some \<lparr>host = ''github.com'', ownerPath = ''acme'',
                               repo = ''widget'', provider = github\<rparr>,
         sourceBranch = ''feat/x'', targetBranch = ''main''\<rparr>
      = Some ''https://github.com/acme/widget/compare/main...feat%2Fx?expand=1''"
    by (simp add: manualUrl_def buildCreateMrUrl_def Let_def e)
  have v: "manualUrl \<lparr>mr_cwd = ''/repo'', parsedRemote = None,
         sourceBranch = ''feat/x'', targetBranch = ''main''\<rparr> = None"
    by (simp add: manualUrl_def)
  have c1: "candidates (Some \<lparr>host = ''github.com'', ownerPath = ''acme'',
                               repo = ''widget'', provider = github\<rparr>) = [''gh'', ''glab'']"
    "candidates None = [''glab'', ''gh'']"
    by (simp_all add: candidates_def)
  note r1 = C6_manual_link [OF n, of "\<lparr>mr_cwd = ''/repo'',
         parsedRemote = Some \<lparr>host = ''github.com'', ownerPath = ''acme'',
                               repo = ''widget'', provider = github\<rparr>,
         sourceBranch = ''feat/x'', targetBranch = ''main''\<rparr>", THEN conjunct1]
  note r2 = C6_manual_link [OF n, of "\<lparr>mr_cwd = ''/repo'', parsedRemote = None,
         sourceBranch = ''feat/x'', targetBranch = ''main''\<rparr>", THEN conjunct1]
  have h: "hint (Some ''https://github.com/acme/widget/compare/main...feat%2Fx?expand=1'')
      = hint None @ [CHR 0x0A] @ ''manual link: ''
          @ ''https://github.com/acme/widget/compare/main...feat%2Fx?expand=1''"
    by (rule hint_Some) simp
  show ?thesis
    using n r1 r2 by (simp add: u v c1 h)
qed

text \<open>
  C10: with \<open>a\<close>, \<open>b\<close> the two candidate tools in their order, request creation probes
  \<open>a\<close> and, only if \<open>a\<close> is not on the path, \<open>b\<close>; the first one found is the only one
  whose create command is run. When that command exits non-zero, the operation throws at
  once the error of that tool, whose text is built from the output of the tool alone (no
  manual link is appended), and the other tool is neither probed nor run after the failure.
\<close>

theorem C10_no_fallback_after_failure:
  assumes cands: "candidates (parsedRemote options) = [a, b]"
  shows "(onPath w a \<and> code (createAnswer w options a) \<noteq> 0 \<longrightarrow>
            createMergeRequest w options =
              (Inl (MergeRequestFailed (failureText a (createAnswer w options a))),
               [whichCall w a, createCall options a]))
       \<and> (onPath w a \<and> code (createAnswer w options a) = 0 \<longrightarrow>
            createMergeRequest w options = (Inr (), [whichCall w a, createCall options a]))
       \<and> (\<not> onPath w a \<and> onPath w b \<and> code (createAnswer w options b) \<noteq> 0 \<longrightarrow>
            createMergeRequest w options =
              (Inl (MergeRequestFailed (failureText b (createAnswer w options b))),
               [whichCall w a, whichCall w b, createCall options b]))"
proof -
  have ab: "a = ''glab'' \<and> b = ''gh'' \<or> a = ''gh'' \<and> b = ''glab''"
    using cands candidates_cases [of "parsedRemote options"] by auto
  have neq: "''gh'' \<noteq> ''glab''" by simp
  show ?thesis
    using ab
    by (auto simp add: createMergeRequest_def cands Let_def commandExists_eq createAnswer_def
        createCall_def createArgs_def failureText_def throw_def ret_def)
qed

theorem C10_no_fallback_after_failure_witness:
  "onPath glabWorld ''glab'' \<and> \<not> onPath glabWorld ''gh''
   \<and> createMergeRequest glabWorld
        \<lparr>mr_cwd = ''/repo'', parsedRemote = None,
         sourceBranch = ''feat-x'', targetBranch = ''main''\<rparr>
      = (Inl (MergeRequestFailed
                (''failed to create merge request via glab.'' @ [CHR 0x0A]
                   @ ''401 Unauthorized'')),
         [RunCommandCapture ''which'' [''glab''] ''/repo'',
          RunCommandCapture ''glab''
            [''mr'', ''create'', ''--source-branch'', ''feat-x'', ''--target-branch'', ''main'',
             ''--fill'', ''--yes''] ''/repo''])
   \<and> createMergeRequest glabWorld
        \<lparr>mr_cwd = ''/repo'',
         parsedRemote = Some \<lparr>host = ''github.com'', ownerPath = ''acme'',
                               repo = ''widget'', provider = github\<rparr>,
         sourceBranch = ''feat-x'', targetBranch = ''main''\<rparr>
      = (Inl (MergeRequestFailed
                (''failed to create merge request via glab.'' @ [CHR 0x0A]
                   @ ''401 Unauthorized'')),
         [RunCommandCapture ''which'' [''gh''] ''/repo'',
          RunCommandCapture ''which'' [''glab''] ''/repo'',
          RunCommandCapture ''glab''
            [''mr'', ''create'', ''--source-branch'', ''feat-x'', ''--target-branch'', ''main'',
             ''--fill'', ''--yes''] ''/repo''])"
proof -
  let ?o1 = "\<lparr>mr_cwd = ''/repo'', parsedRemote = None,
         sourceBranch = ''feat-x'', targetBranch = ''main''\<rparr>"
  let ?o2 = "\<lparr>mr_cwd = ''/repo'',
         parsedRemote = Some \<lparr>host = ''github.com'', ownerPath = ''acme'',
                               repo = ''widget'', provider = github\<rparr>,
         sourceBranch = ''feat-x'', targetBranch = ''main''\<rparr>"
  have p: "onPath glabWorld ''glab''" "\<not> onPath glabWorld ''gh''"
    by (simp_all add: onPath_def glabWorld_def sampleWorld_def)
  have c1: "candidates (parsedRemote ?o1) = [''glab'', ''gh'']"
    by (simp add: candidates_def)
  have c2: "candidates (parsedRemote ?o2) = [''gh'', ''glab'']"
    by (simp add: candidates_def)
  have f1: "code (createAnswer glabWorld ?o1 ''glab'') \<noteq> 0"
    by (simp add: createAnswer_def glabWorld_def sampleWorld_def)
  have f2: "code (createAnswer glabWorld ?o2 ''glab'') \<noteq> 0"
    by (simp add: createAnswer_def glabWorld_def sampleWorld_def)
  have t: "trim (''failed to create merge request via glab.'' @ [CHR 0x0A]
                   @ ''401 Unauthorized'' @ [CHR 0x0A])
      = ''failed to create merge request via glab.'' @ [CHR 0x0A] @ ''401 Unauthorized''"
    by (simp add: trim_def isSpace_def)
  have x1: "failureText ''glab'' (createAnswer glabWorld ?o1 ''glab'')
      = ''failed to create merge request via glab.'' @ [CHR 0x0A] @ ''401 Unauthorized''"
    using t by (simp add: failureText_def createAnswer_def glabWorld_def sampleWorld_def
        firstNonEmpty_def)
  have x2: "failureText ''glab'' (createAnswer glabWorld ?o2 ''glab'')
      = ''failed to create merge request via glab.'' @ [CHR 0x0A] @ ''401 Unauthorized''"
    using t by (simp add: failureText_def createAnswer_def glabWorld_def sampleWorld_def
        firstNonEmpty_def)
  have w: "whichCall glabWorld ''glab'' = RunCommandCapture ''which'' [''glab''] ''/repo''"
    "whichCall glabWorld ''gh'' = RunCommandCapture ''which'' [''gh''] ''/repo''"
    by (simp_all add: whichCall_def glabWorld_def sampleWorld_def)
  have k: "createCall ?o1 ''glab'' = RunCommandCapture ''glab''
            [''mr'', ''create'', ''--source-branch'', ''feat-x'', ''--target-branch'', ''main'',
             ''--fill'', ''--yes''] ''/repo''"
    "createCall ?o2 ''glab'' = RunCommandCapture ''glab''
            [''mr'', ''create'', ''--source-branch'', ''feat-x'', ''--target-branch'', ''main'',
             ''--fill'', ''--yes''] ''/repo''"
    by (simp_all add: createCall_def createArgs_def glabArgs_def)
  have r1: "createMergeRequest glabWorld ?o1
      = (Inl (MergeRequestFailed (failureText ''glab'' (createAnswer glabWorld ?o1 ''glab''))),
         [whichCall glabWorld ''glab'', createCall ?o1 ''glab''])"
    using C10_no_fallback_after_failure [OF c1, of glabWorld] p(1) f1 by blast
  have r2: "createMergeRequest glabWorld ?o2
      = (Inl (MergeRequestFailed (failureText ''glab'' (createAnswer glabWorld ?o2 ''glab''))),
         [whichCall glabWorld ''gh'', whichCall glabWorld ''glab'', createCall ?o2 ''glab''])"
    using C10_no_fallback_after_failure [OF c2, of glabWorld] p f2 by blast
  show ?thesis
    using p by (simp only: r1 r2 x1 x2 w k) simp
qed

section \<open>Sync-and-Push: conflicts\<close>

lemma afterFailure_eq:
  "afterFailure w what cmd rerunCommandName =
     (if statusConflicted w \<noteq> []
      then (Inl (MergeConflict (''please resolve conflicts, then rerun '' @ rerunCommandName)),
            [GitStatus, StderrWrite (conflictReport what (statusConflicted w))])
      else (Inl (SyncFailed (''git '' @ cmd @ '' failed; please fix and rerun'')),
            [GitStatus]))"
  by (simp add: afterFailure_def throw_def)

lemma join_map_mentions:
  "p \<in> set ps \<Longrightarrow> \<exists>a b. join sep (map f ps) = a @ f p @ b"
proof (induction ps)
  case Nil
  then show ?case by simp
next
  case (Cons x xs)
  show ?case
  proof (cases xs)
    case Nil
    then have "join sep (map f (x # xs)) = [] @ f p @ []" using Cons.prems by simp
    then show ?thesis by blast
  next
    case (Cons y ys)
    show ?thesis
    proof (cases "p = x")
      case True
      then have "join sep (map f (x # xs)) = [] @ f p @ (sep @ join sep (map f xs))"
        using Cons by simp
      then show ?thesis by blast
    next
      case False
      then have "p \<in> set xs" using Cons.prems by simp
      then obtain a b where "join sep (map f xs) = a @ f p @ b"
        using Cons.IH by blast
      then have "join sep (map f (x # xs)) = (f x @ sep @ a) @ f p @ b"
        using Cons by simp
      then show ?thesis by blast
    qed
  qed
qed

lemma conflictReport_mentions:
  assumes "p \<in> set ps"
  shows "includesStr (conflictReport what ps) p"
proof -
  obtain a b where "join [CHR 0x0A] (map (\<lambda>p. ''  '' @ p) ps) = a @ (''  '' @ p) @ b"
    using join_map_mentions [OF assms] by blast
  then have "conflictReport what ps =
      ([CHR 0x0A] @ what @ '' resulted in conflicts:'' @ [CHR 0x0A] @ a @ ''  '') @ p
        @ (b @ [CHR 0x0A])"
    by (simp add: conflictReport_def)
  then show ?thesis by (simp only: includesStr_append)
qed

text \<open>
  C8: when the pull is attempted (the branch has an upstream, or the remote hosts a branch
  of the same name) and its git command fails, and when the fetch or the merge of the merge
  step fails, the operation inspects the status once more and then, if there are
  conflicted paths, writes a report to the error stream that lists every one of them and
  fails with the merge-conflict error that asks for a rerun of the same command; if there
  are none, it fails with the generic sync-failed error. Nothing follows the failed command
  but that status inspection and the report: no resolution, no staging, no commit.
\<close>

theorem C8_conflicts_reported:
  "(\<not> pullSucceeds w \<and> fst (getUpstreamRef w) \<noteq> Inr None \<longrightarrow>
      pullIfPossible w remote br rerun =
        (if statusConflicted w \<noteq> []
         then (Inl (MergeConflict (''please resolve conflicts, then rerun '' @ rerun)),
               snd (getUpstreamRef w)
                 @ [GitPull None, GitStatus,
                    StderrWrite (conflictReport ''Pull'' (statusConflicted w))])
         else (Inl (SyncFailed ''git pull failed; please fix and rerun''),
               snd (getUpstreamRef w) @ [GitPull None, GitStatus])))
   \<and> (\<not> pullSucceeds w \<and> fst (getUpstreamRef w) = Inr None
        \<and> fst (remoteBranchExists w remote br) = Inr True \<longrightarrow>
      pullIfPossible w remote br rerun =
        (if statusConflicted w \<noteq> []
         then (Inl (MergeConflict (''please resolve conflicts, then rerun '' @ rerun)),
               snd (getUpstreamRef w) @ snd (remoteBranchExists w remote br)
                 @ [GitPull (Some (remote, br)), GitStatus,
                    StderrWrite (conflictReport ''Pull'' (statusConflicted w))])
         else (Inl (SyncFailed ''git pull failed; please fix and rerun''),
               snd (getUpstreamRef w) @ snd (remoteBranchExists w remote br)
                 @ [GitPull (Some (remote, br)), GitStatus])))
   \<and> (\<not> (fetchSucceeds w \<and> mergeSucceeds w) \<longrightarrow>
      mergeRemoteBranchIntoCurrent w remote src rerun =
        (if statusConflicted w \<noteq> []
         then (Inl (MergeConflict (''please resolve conflicts, then rerun '' @ rerun)),
               (if fetchSucceeds w
                then [GitFetch remote src, GitMerge [remote @ ''/'' @ src]]
                else [GitFetch remote src])
                 @ [GitStatus, StderrWrite (conflictReport ''Merge'' (statusConflicted w))])
         else (Inl (SyncFailed ''git merge failed; please fix and rerun''),
               (if fetchSucceeds w
                then [GitFetch remote src, GitMerge [remote @ ''/'' @ src]]
                else [GitFetch remote src])
                 @ [GitStatus])))
   \<and> (\<forall>p \<in> set (statusConflicted w).
         includesStr (conflictReport ''Pull'' (statusConflicted w)) p
         \<and> includesStr (conflictReport ''Merge'' (statusConflicted w)) p)
   \<and> filter mutates (snd (getUpstreamRef w) @ snd (remoteBranchExists w remote br)) = []"
proof -
  have up: "getUpstreamRef w = (fst (getUpstreamRef w), snd (getUpstreamRef w))" by simp
  have upr: "\<exists>u. fst (getUpstreamRef w) = Inr u"
    by (simp add: getUpstreamRef_eq)
  have rb: "remoteBranchExists w remote br
      = (fst (remoteBranchExists w remote br), snd (remoteBranchExists w remote br))"
    by simp
  have a: "\<not> pullSucceeds w \<and> fst (getUpstreamRef w) \<noteq> Inr None \<longrightarrow>
      pullIfPossible w remote br rerun =
        (if statusConflicted w \<noteq> []
         then (Inl (MergeConflict (''please resolve conflicts, then rerun '' @ rerun)),
               snd (getUpstreamRef w)
                 @ [GitPull None, GitStatus,
                    StderrWrite (conflictReport ''Pull'' (statusConflicted w))])
         else (Inl (SyncFailed ''git pull failed; please fix and rerun''),
               snd (getUpstreamRef w) @ [GitPull None, GitStatus]))"
    by (auto simp add: pullIfPossible_def getUpstreamRef_eq afterFailure_eq Let_def
        split: option.splits)
  have b: "\<not> pullSucceeds w \<and> fst (getUpstreamRef w) = Inr None
        \<and> fst (remoteBranchExists w remote br) = Inr True \<longrightarrow>
      pullIfPossible w remote br rerun =
        (if statusConflicted w \<noteq> []
         then (Inl (MergeConflict (''please resolve conflicts, then rerun '' @ rerun)),
               snd (getUpstreamRef w) @ snd (remoteBranchExists w remote br)
                 @ [GitPull (Some (remote, br)), GitStatus,
                    StderrWrite (conflictReport ''Pull'' (statusConflicted w))])
         else (Inl (SyncFailed ''git pull failed; please fix and rerun''),
               snd (getUpstreamRef w) @ snd (remoteBranchExists w remote br)
                 @ [GitPull (Some (remote, br)), GitStatus]))"
    by (auto simp add: pullIfPossible_def getUpstreamRef_eq remoteBranchExists_def
        afterFailure_eq Let_def split: option.splits)
  have c: "\<not> (fetchSucceeds w \<and> mergeSucceeds w) \<longrightarrow>
      mergeRemoteBranchIntoCurrent w remote src rerun =
        (if statusConflicted w \<noteq> []
         then (Inl (MergeConflict (''please resolve conflicts, then rerun '' @ rerun)),
               (if fetchSucceeds w
                then [GitFetch remote src, GitMerge [remote @ ''/'' @ src]]
                else [GitFetch remote src])
                 @ [GitStatus, StderrWrite (conflictReport ''Merge'' (statusConflicted w))])
         else (Inl (SyncFailed ''git merge failed; please fix and rerun''),
               (if fetchSucceeds w
                then [GitFetch remote src, GitMerge [remote @ ''/'' @ src]]
                else [GitFetch remote src])
                 @ [GitStatus]))"
    by (auto simp add: mergeRemoteBranchIntoCurrent_def afterFailure_eq)
  have d: "\<forall>p \<in> set (statusConflicted w).
         includesStr (conflictReport ''Pull'' (statusConflicted w)) p
         \<and> includesStr (conflictReport ''Merge'' (statusConflicted w)) p"
    using conflictReport_mentions by blast
  have e: "filter mutates (snd (getUpstreamRef w) @ snd (remoteBranchExists w remote br)) = []"
    by (simp add: getUpstreamRef_eq remoteBranchExists_def split: option.splits)
  show ?thesis using a b c d e by blast
qed

theorem C8_conflicts_reported_witness:
  "\<not> pullSucceeds conflictWorld
   \<and> statusConflicted conflictWorld = [''a.txt'', ''b/c.txt'']
   \<and> pullIfPossible conflictWorld ''origin'' ''feat-x'' ''to-main''
      = (Inl (MergeConflict ''please resolve conflicts, then rerun to-main''),
         [GitRaw [''rev-parse'', ''--abbrev-ref'', ''--symbolic-full-name'', ''@'' @ ''{u}''],
          GitPull None, GitStatus,
          StderrWrite ([CHR 0x0A] @ ''Pull resulted in conflicts:'' @ [CHR 0x0A]
                         @ ''  a.txt'' @ [CHR 0x0A] @ ''  b/c.txt'' @ [CHR 0x0A])])
   \<and> pullIfPossible
        (conflictWorld\<lparr>revParseUpstream := None,
                       lsRemoteHeads := (\<lambda>_ _. Some ''3f2a refs/heads/feat-x''),
                       statusConflicted := []\<rparr>)
        ''origin'' ''feat-x'' ''to-main''
      = (Inl (SyncFailed ''git pull failed; please fix and rerun''),
         [GitRaw [''rev-parse'', ''--abbrev-ref'', ''--symbolic-full-name'', ''@'' @ ''{u}''],
          GitRaw [''ls-remote'', ''--heads'', ''origin'', ''feat-x''],
          GitPull (Some (''origin'', ''feat-x'')), GitStatus])
   \<and> mergeRemoteBranchIntoCurrent conflictWorld ''origin'' ''feat-x'' ''to-test''
      = (Inl (MergeConflict ''please resolve conflicts, then rerun to-test''),
         [GitFetch ''origin'' ''feat-x'', GitMerge [''origin/feat-x''], GitStatus,
          StderrWrite ([CHR 0x0A] @ ''Merge resulted in conflicts:'' @ [CHR 0x0A]
                         @ ''  a.txt'' @ [CHR 0x0A] @ ''  b/c.txt'' @ [CHR 0x0A])])
   \<and> includesStr (conflictReport ''Pull'' (statusConflicted conflictWorld)) ''b/c.txt''"
proof -
  let ?w2 = "conflictWorld\<lparr>revParseUpstream := None,
                       lsRemoteHeads := (\<lambda>_ _. Some ''3f2a refs/heads/feat-x''),
                       statusConflicted := []\<rparr>"
  have p1: "\<not> pullSucceeds conflictWorld" "\<not> pullSucceeds ?w2"
    by (simp_all add: conflictWorld_def)
  have sc: "statusConflicted conflictWorld = [''a.txt'', ''b/c.txt'']"
    "statusConflicted ?w2 = []"
    by (simp_all add: conflictWorld_def)
  have t: "trim (''origin/feat-x'' @ [CHR 0x0A]) = ''origin/feat-x''"
    "trim ''3f2a refs/heads/feat-x'' = ''3f2a refs/heads/feat-x''"
    by (simp_all add: trim_def isSpace_def)
  have u1: "getUpstreamRef conflictWorld
      = (Inr (Some ''origin/feat-x''),
         [GitRaw [''rev-parse'', ''--abbrev-ref'', ''--symbolic-full-name'', ''@'' @ ''{u}'']])"
    by (simp add: getUpstreamRef_eq conflictWorld_def sampleWorld_def trim_def isSpace_def)
  have u2: "getUpstreamRef ?w2
      = (Inr None,
         [GitRaw [''rev-parse'', ''--abbrev-ref'', ''--symbolic-full-name'', ''@'' @ ''{u}'']])"
    by (simp add: getUpstreamRef_eq)
  have b2: "remoteBranchExists ?w2 ''origin'' ''feat-x''
      = (Inr True, [GitRaw [''ls-remote'', ''--heads'', ''origin'', ''feat-x'']])"
    by (simp add: remoteBranchExists_def t ret_def)
  have f: "fetchSucceeds conflictWorld" "\<not> mergeSucceeds conflictWorld"
    by (simp_all add: conflictWorld_def sampleWorld_def)
  have rep: "conflictReport ''Pull'' [''a.txt'', ''b/c.txt'']
      = [CHR 0x0A] @ ''Pull resulted in conflicts:'' @ [CHR 0x0A]
          @ ''  a.txt'' @ [CHR 0x0A] @ ''  b/c.txt'' @ [CHR 0x0A]"
    "conflictReport ''Merge'' [''a.txt'', ''b/c.txt'']
      = [CHR 0x0A] @ ''Merge resulted in conflicts:'' @ [CHR 0x0A]
          @ ''  a.txt'' @ [CHR 0x0A] @ ''  b/c.txt'' @ [CHR 0x0A]"
    by (simp_all add: conflictReport_def)
  note w1 = C8_conflicts_reported [of conflictWorld "''origin''" "''feat-x''" "''to-main''"
      "''feat-x''"]
  note w2 = C8_conflicts_reported [of ?w2 "''origin''" "''feat-x''" "''to-main''" "''feat-x''"]
  note w3 = C8_conflicts_reported [of conflictWorld "''origin''" "''feat-x''" "''to-test''"
      "''feat-x''"]
  have r1: "pullIfPossible conflictWorld ''origin'' ''feat-x'' ''to-main''
      = (Inl (MergeConflict (''please resolve conflicts, then rerun '' @ ''to-main'')),
               snd (getUpstreamRef conflictWorld)
                 @ [GitPull None, GitStatus,
                    StderrWrite (conflictReport ''Pull'' (statusConflicted conflictWorld))])"
    using w1 [THEN conjunct1] p1(1) by (simp add: u1 sc)
  have r2: "pullIfPossible ?w2 ''origin'' ''feat-x'' ''to-main''
      = (Inl (SyncFailed ''git pull failed; please fix and rerun''),
               snd (getUpstreamRef ?w2) @ snd (remoteBranchExists ?w2 ''origin'' ''feat-x'')
                 @ [GitPull (Some (''origin'', ''feat-x'')), GitStatus])"
    using w2 [THEN conjunct2, THEN conjunct1] p1(2) by (simp add: u2 b2)
  have r3: "mergeRemoteBranchIntoCurrent conflictWorld ''origin'' ''feat-x'' ''to-test''
      = (Inl (MergeConflict (''please resolve conflicts, then rerun '' @ ''to-test'')),
               [GitFetch ''origin'' ''feat-x'', GitMerge [''origin'' @ ''/'' @ ''feat-x'']]
                 @ [GitStatus,
                    StderrWrite (conflictReport ''Merge'' (statusConflicted conflictWorld))])"
    using w3 [THEN conjunct2, THEN conjunct2, THEN conjunct1] f by (simp add: sc)
  have r4: "includesStr (conflictReport ''Pull'' (statusConflicted conflictWorld)) ''b/c.txt''"
    using w1 [THEN conjunct2, THEN conjunct2, THEN conjunct2, THEN conjunct1]
    by (simp add: sc)
  show ?thesis
    using p1(1) sc(1) r4 by (simp add: r1 r2 r3 u1 u2 b2 rep)
qed

end
